theory Spec2Isabelle
  imports Complex_Main
begin

section \<open>Values of the program\<close>

text \<open>
  The program is the single file \<^verbatim>\<open>src/final.ts\<close>. Its classes are embedded as
  datatypes, its methods as functions of the same names. Exceptions are values of
  type \<open>exn\<close>; a method that can throw returns \<open>exn + 'a\<close> with \<open>Inl\<close> the thrown
  value. JavaScript's \<^verbatim>\<open>undefined\<close> and \<^verbatim>\<open>null\<close> are \<open>None\<close>.

  Numbers: \<^verbatim>\<open>amount\<close>, \<^verbatim>\<open>outputIdx\<close>, \<^verbatim>\<open>blockNumber\<close>, \<^verbatim>\<open>nonce\<close> and
  \<^verbatim>\<open>blockDifficulty\<close> are JavaScript numbers holding integers; they are embedded as
  \<open>int\<close>. Where the program adds or subtracts amounts, the result is rounded to a
  double (\<open>toDouble\<close> below). The nonce and the block number are counted exactly;
  they stay far below \<open>2 ^ 53\<close>, where the program's counting is exact too.
\<close>

datatype exn =
    TypeError                 \<comment> \<open>property access on \<^verbatim>\<open>undefined\<close> or \<^verbatim>\<open>null\<close>\<close>
  | LibraryError string       \<comment> \<open>an error thrown by bignumber.js or node-rsa\<close>
  | Error string              \<comment> \<open>\<^verbatim>\<open>throw new Error(msg)\<close>\<close>
  | Thrown string             \<comment> \<open>\<^verbatim>\<open>throw 'Invalid transaction'\<close>: a thrown string\<close>

type_synonym Address = string

subsection \<open>The classes\<close>

record Wallet =
  privateKey :: string
  address :: Address

record TransactionOutput =
  recipientAddress :: Address
  amount :: int

text \<open>\<^verbatim>\<open>signature\<close> is a Buffer, embedded as its bytes; a transaction that was built
  without a wallet and is not a \<^verbatim>\<open>GenesisTransaction\<close> has none.\<close>

datatype Transaction =
  Transaction (wallet: "Wallet option") (inputs: "TransactionInput list")
              (outputs: "TransactionOutput list") (signature: "string option")
and TransactionInput =
  TransactionInput (transaction: Transaction) (outputIdx: int)

text \<open>
  \<open>cls\<close> is the class of the object, which selects the \<^verbatim>\<open>toJson\<close> that runs.
  \<open>nonce\<close> and \<open>hash\<close> are unset until \<^verbatim>\<open>mine\<close> has run.
\<close>

datatype BlockClass = BlockClass | GenesisBlockClass

datatype Block =
  Block (cls: BlockClass) (transactions: "Transaction list") (ancestor: "Block option")
        (minerAddress: Address) (nonce: "int option") (hash: "string option")
        (blockNumber: int) (validTransaction: bool) (blockDifficulty: int)

subsection \<open>Number.prototype.toString on integer-valued doubles\<close>

text \<open>
  \<^verbatim>\<open>isPoWValid\<close> passes \<^verbatim>\<open>this.blockDifficulty.toString()\<close> to bignumber.js, so the
  decimal text that ECMAScript's \<^verbatim>\<open>Number::toString\<close> produces matters. For a positive
  double \<open>x\<close> it takes the least \<open>k\<close> such that some decimal \<open>s * 10 ^ (n - k)\<close> with
  \<open>k\<close> significant digits converts back to \<open>x\<close>, and prints \<open>s\<close> plainly when
  \<open>n \<le> 21\<close> and in exponent form otherwise. Below \<open>2 ^ 53\<close> every integer is a double
  and prints as its own digits. From \<open>2 ^ 53\<close> on, \<open>x = m * 2 ^ e\<close> with a 53-bit
  \<open>m\<close>; a number converts back to \<open>x\<close> when it lies within half a unit in the last
  place of \<open>x\<close> (a quarter below a power of two; the bounds included when \<open>m\<close> is
  even). The function is meant for arguments that are doubles.
\<close>

function numDigits :: "nat \<Rightarrow> nat \<Rightarrow> nat" where
  "numDigits b x = (if b < 2 \<or> x < b then 1 else Suc (numDigits b (x div b)))"
  by pat_completeness auto
termination
  by (relation "measure (\<lambda>(b, x). x)") auto

declare numDigits.simps [simp del]

definition digitChar :: "nat \<Rightarrow> char" where
  "digitChar d = ''0123456789'' ! d"

function decimal :: "nat \<Rightarrow> string" where
  "decimal x = (if x < 10 then [digitChar x] else decimal (x div 10) @ [digitChar (x mod 10)])"
  by pat_completeness auto
termination
  by (relation "measure id") auto

declare decimal.simps [simp del]

text \<open>\<open>roundsTo x r\<close>: the integer \<open>r\<close> converts to the double \<open>x\<close> (\<open>x \<ge> 2 ^ 53\<close>).
  The comparison is made on the fourfold values, so that the quarter unit is an integer.\<close>

definition roundsTo :: "nat \<Rightarrow> nat \<Rightarrow> bool" where
  "roundsTo x r =
     (let e = numDigits 2 x - 53;
          m = x div 2 ^ e;
          below = (if m = 2 ^ 52 then 2 ^ e else 2 * 2 ^ e);
          above = 2 * 2 ^ e
      in if even m then 4 * x \<le> 4 * r + below \<and> 4 * r \<le> 4 * x + above
         else 4 * x < 4 * r + below \<and> 4 * r < 4 * x + above)"

text \<open>The shortest decimal that converts back to \<open>x\<close>, as the pair \<open>(s, p)\<close> that
  stands for \<open>s * 10 ^ p\<close>: try \<open>k = 1, 2, \<dots>\<close> significant digits; with \<open>k\<close> digits
  the candidates are \<open>x\<close> with its low \<open>p\<close> digits cut off, and the next number of
  that length. Of two candidates that convert back the nearer one is taken. With all
  digits of \<open>x\<close> kept the candidate is \<open>x\<close> itself.\<close>

function shortest :: "nat \<Rightarrow> nat \<Rightarrow> nat \<times> nat" where
  "shortest k x =
     (if numDigits 10 x \<le> k then (x, 0)
      else
        (let p = numDigits 10 x - k;
             s1 = x div 10 ^ p;
             in1 = roundsTo x (s1 * 10 ^ p);
             in2 = roundsTo x ((s1 + 1) * 10 ^ p)
         in if in1 \<and> in2 then
              (if x - s1 * 10 ^ p < (s1 + 1) * 10 ^ p - x then (s1, p)
               else if (s1 + 1) * 10 ^ p - x < x - s1 * 10 ^ p then (s1 + 1, p)
               else if even s1 then (s1, p) else (s1 + 1, p))
            else if in1 then (s1, p)
            else if in2 then (s1 + 1, p)
            else shortest (k + 1) x))"
  by pat_completeness auto
termination
  by (relation "measure (\<lambda>(k, x). numDigits 10 x - k)") auto

declare shortest.simps [simp del]

definition stripZeros :: "string \<Rightarrow> string" where
  "stripZeros s = rev (dropWhile (\<lambda>c. c = CHR ''0'') (rev s))"

text \<open>With \<open>n\<close> the number of digits of the integer \<open>s * 10 ^ p\<close>: up to 21 digits are
  printed plainly, more in exponent form.\<close>

definition Number_toString_nat :: "nat \<Rightarrow> string" where
  "Number_toString_nat x =
     (let (s, p) = (if x < 2 ^ 53 then (x, 0) else shortest 1 x);
          n = numDigits 10 s + p
      in if n \<le> 21 then decimal s @ replicate p (CHR ''0'')
         else (case stripZeros (decimal s) of
                 [] \<Rightarrow> []
               | [d] \<Rightarrow> d # ''e+'' @ decimal (n - 1)
               | d # ds \<Rightarrow> d # CHR ''.'' # ds @ ''e+'' @ decimal (n - 1)))"

definition Number_toString :: "int \<Rightarrow> string" where
  "Number_toString x =
     (if x < 0 then CHR ''-'' # Number_toString_nat (nat (- x)) else Number_toString_nat (nat x))"

subsection \<open>Sums of doubles\<close>

text \<open>
  \<^verbatim>\<open>a + b\<close> and \<^verbatim>\<open>a - b\<close> on doubles are the exact result rounded to the nearest
  double, to the one with the even mantissa when two are equally near. \<open>toDouble x\<close> is
  that rounding of the integer \<open>x\<close>: up to \<open>2 ^ 53\<close> in magnitude every integer is a
  double; beyond, \<open>x\<close> keeps its leading 53 bits \<open>q\<close>, rounded by the remainder \<open>r\<close>.
  A magnitude of \<open>2 ^ 1024\<close> or more, which the program holds as \<^verbatim>\<open>Infinity\<close>, is
  outside the embedding.
\<close>

definition toDouble :: "int \<Rightarrow> int" where
  "toDouble x =
     (if \<bar>x\<bar> \<le> 2 ^ 53 then x
      else
        (let e = numDigits 2 (nat \<bar>x\<bar>) - 53;
             q = \<bar>x\<bar> div 2 ^ e;
             r = \<bar>x\<bar> mod 2 ^ e;
             q' = (if 2 ^ e < 2 * r \<or> (2 * r = 2 ^ e \<and> odd q) then q + 1 else q)
         in sgn x * (q' * 2 ^ e)))"


subsection \<open>The external libraries\<close>

text \<open>
  JSON values, as \<^verbatim>\<open>toJson\<close> builds them. The members of an object are kept in the
  order of the object literal. \<^verbatim>\<open>JSON.stringify\<close> leaves out a member whose value is
  \<^verbatim>\<open>undefined\<close>; \<open>member\<close> does the same.
\<close>

datatype json =
    JNumber int
  | JString string
  | JBool bool
  | JArray "json list"
  | JObject "(string \<times> json) list"

definition member :: "string \<Rightarrow> json option \<Rightarrow> (string \<times> json) list" where
  "member k v = (case v of None \<Rightarrow> [] | Some j \<Rightarrow> [(k, j)])"

text \<open>The values of bignumber.js, and its comparison \<^verbatim>\<open>lessThanOrEqualTo\<close>.\<close>

datatype bignum = NaN | NegInfinity | Finite rat | PosInfinity

fun lessThanOrEqualTo :: "bignum \<Rightarrow> bignum \<Rightarrow> bool" where
  "lessThanOrEqualTo NaN _ = False"
| "lessThanOrEqualTo _ NaN = False"
| "lessThanOrEqualTo NegInfinity _ = True"
| "lessThanOrEqualTo _ PosInfinity = True"
| "lessThanOrEqualTo (Finite a) (Finite b) = (a \<le> b)"
| "lessThanOrEqualTo _ _ = False"

text \<open>
  The libraries the program calls are not part of it. What they compute is a parameter
  of the embedding:
  \<^item> \<open>js_sha256 j\<close> is \<^verbatim>\<open>sha256(JSON.stringify(j))\<close> of js-sha256;
  \<^item> \<open>rsa_sign key j\<close> is node-rsa's signature of \<^verbatim>\<open>JSON.stringify(j)\<close> under a
    private key, \<open>rsa_verify address j sig\<close> its verification under a public key; both
    throw on malformed key material;
  \<^item> \<open>bignumber_other s\<close> is \<^verbatim>\<open>new BigNumber(s)\<close> on the strings that
    \<open>BigNumber_new\<close> below does not parse itself;
  \<^item> \<open>deserialize_blocks bs\<close> and \<open>deserialize_pool txs\<close> are what
    \<^verbatim>\<open>deserialize\<close> of serializer.ts reads back from a file in which the chain
    \<open>bs\<close>, or the pool \<open>txs\<close>, was saved. It builds the objects anew through the
    constructors of the classes, so it can throw, and what it returns need not be what
    was saved.
\<close>

record externals =
  js_sha256 :: "json \<Rightarrow> string"
  rsa_sign :: "string \<Rightarrow> json \<Rightarrow> exn + string"
  rsa_verify :: "Address \<Rightarrow> json \<Rightarrow> string option \<Rightarrow> exn + bool"
  bignumber_other :: "string \<Rightarrow> exn + bignum"
  deserialize_blocks :: "Block list \<Rightarrow> exn + Block list"
  deserialize_pool :: "Transaction list \<Rightarrow> exn + Transaction list"

text \<open>
  \<^verbatim>\<open>new BigNumber(s)\<close> of bignumber.js (a release before 6.0, which still has
  \<^verbatim>\<open>lessThanOrEqualTo\<close>) on a string. Two forms are parsed here, both exactly:
  \<^item> a decimal numeral, the library's pattern
    \<^verbatim>\<open>/^-?(\d+(\.\d*)?|\.\d+)(e[+-]?\d+)?$/i\<close>, which is what
    \<^verbatim>\<open>Number.prototype.toString\<close> yields;
  \<^item> \<^verbatim>\<open>0x\<close> followed by one or more hexadecimal digits, either case: an integer
    in base 16.
  Both are bounded in size, far inside the library's exponent range of \<open>10 ^ 9\<close>.
  Every other string is left to \<open>bignumber_other\<close>.
\<close>

definition isDigit :: "char \<Rightarrow> bool" where
  "isDigit c = (c \<in> set ''0123456789'')"

fun indexOf :: "'a list \<Rightarrow> 'a \<Rightarrow> nat option" where
  "indexOf [] c = None"
| "indexOf (x # xs) c = (if x = c then Some 0 else map_option Suc (indexOf xs c))"

definition hexDigit :: "char \<Rightarrow> nat option" where
  "hexDigit c =
     (case indexOf ''0123456789abcdef'' c of
        Some d \<Rightarrow> Some d
      | None \<Rightarrow> map_option (\<lambda>d. d + 10) (indexOf ''ABCDEF'' c))"

definition digitsValue :: "nat \<Rightarrow> string \<Rightarrow> nat" where
  "digitsValue base ds =
     foldl (\<lambda>acc c. acc * base + (case hexDigit c of Some d \<Rightarrow> d | None \<Rightarrow> 0)) 0 ds"

definition parseExponent :: "string \<Rightarrow> int option" where
  "parseExponent s =
     (case s of
        [] \<Rightarrow> Some 0
      | c # r \<Rightarrow>
          if c = CHR ''e'' \<or> c = CHR ''E'' then
            (let neg = (take 1 r = ''-'');
                 ds = (if take 1 r = ''-'' \<or> take 1 r = ''+'' then drop 1 r else r)
             in if ds \<noteq> [] \<and> list_all isDigit ds \<and> length ds \<le> 6
                then Some ((if neg then - 1 else 1) * int (digitsValue 10 ds))
                else None)
          else None)"

definition parseDecimal :: "string \<Rightarrow> rat option" where
  "parseDecimal s =
     (let neg = (take 1 s = ''-'');
          s1 = (if neg then drop 1 s else s);
          ip = takeWhile isDigit s1;
          r1 = dropWhile isDigit s1;
          dot = (take 1 r1 = ''.'');
          fp = (if dot then takeWhile isDigit (drop 1 r1) else []);
          r2 = (if dot then dropWhile isDigit (drop 1 r1) else r1)
      in if (ip = [] \<and> fp = []) \<or> 1000 < length s then None
         else (case parseExponent r2 of
                 None \<Rightarrow> None
               | Some e \<Rightarrow>
                   (let m = of_nat (digitsValue 10 (ip @ fp));
                        p = e - int (length fp);
                        v = (if 0 \<le> p then m * 10 ^ nat p else m / 10 ^ nat (- p))
                    in Some (if neg then - v else v))))"

definition parseHex :: "string \<Rightarrow> nat option" where
  "parseHex s =
     (let ds = drop 2 s
      in if take 2 s = ''0x'' \<and> ds \<noteq> [] \<and> list_all (\<lambda>c. hexDigit c \<noteq> None) ds
            \<and> length s \<le> 1000
         then Some (digitsValue 16 ds) else None)"

definition BigNumber_new :: "externals \<Rightarrow> string \<Rightarrow> exn + bignum" where
  "BigNumber_new env s =
     (case parseDecimal s of
        Some v \<Rightarrow> Inr (Finite v)
      | None \<Rightarrow>
          (case parseHex s of
             Some n \<Rightarrow> Inr (Finite (of_nat n))
           | None \<Rightarrow> bignumber_other env s))"

section \<open>Transactions\<close>

text \<open>\<^verbatim>\<open>get parentOutput\<close>: indexing outside the array yields \<^verbatim>\<open>undefined\<close>.\<close>

definition parentOutput :: "TransactionInput \<Rightarrow> TransactionOutput option" where
  "parentOutput txin =
     (let outs = outputs (transaction txin); k = outputIdx txin
      in if 0 \<le> k \<and> k < int (length outs) then Some (outs ! nat k) else None)"

definition TransactionOutput_toJson :: "TransactionOutput \<Rightarrow> json" where
  "TransactionOutput_toJson txout =
     JObject [(''recipientAddress'', JString (recipientAddress txout)),
              (''amount'', JNumber (amount txout))]"

fun Transaction_toJson :: "externals \<Rightarrow> Transaction \<Rightarrow> json"
  and TransactionInput_toJson :: "externals \<Rightarrow> TransactionInput \<Rightarrow> json"
  and Transaction_hash :: "externals \<Rightarrow> Transaction \<Rightarrow> string" where
  "Transaction_toJson env (Transaction w ins outs sg) =
     JObject [(''inputs'', JArray (map (TransactionInput_toJson env) ins)),
              (''outputs'', JArray (map TransactionOutput_toJson outs))]"
| "TransactionInput_toJson env (TransactionInput t k) =
     JObject [(''transaction'', JString (Transaction_hash env t)),
              (''outputIdx'', JNumber k)]"
| "Transaction_hash env t = js_sha256 env (Transaction_toJson env t)"

text \<open>\<^verbatim>\<open>Array.prototype.every\<close> and \<^verbatim>\<open>reduce\<close> with a callback that can throw:
  \<^verbatim>\<open>every\<close> stops at the first element the callback rejects, \<^verbatim>\<open>reduce\<close> visits
  all of them.\<close>

fun every :: "('a \<Rightarrow> exn + bool) \<Rightarrow> 'a list \<Rightarrow> exn + bool" where
  "every p [] = Inr True"
| "every p (x # xs) =
     (case p x of
        Inl e \<Rightarrow> Inl e
      | Inr ok \<Rightarrow> if ok then every p xs else Inr False)"

fun reduce :: "('b \<Rightarrow> 'a \<Rightarrow> exn + 'b) \<Rightarrow> 'a list \<Rightarrow> 'b \<Rightarrow> exn + 'b" where
  "reduce f [] acc = Inr acc"
| "reduce f (x # xs) acc =
     (case f acc x of
        Inl e \<Rightarrow> Inl e
      | Inr acc' \<Rightarrow> reduce f xs acc')"

definition Wallet_sign :: "externals \<Rightarrow> Wallet \<Rightarrow> json \<Rightarrow> exn + string" where
  "Wallet_sign env w message = rsa_sign env (privateKey w) message"

definition verifySignature :: "externals \<Rightarrow> Address \<Rightarrow> json \<Rightarrow> string option \<Rightarrow> exn + bool" where
  "verifySignature env walletAddress message sg = rsa_verify env walletAddress message sg"

text \<open>The constructor signs when it is given a wallet.\<close>

definition Transaction_new ::
  "externals \<Rightarrow> Wallet option \<Rightarrow> TransactionInput list \<Rightarrow> TransactionOutput list
     \<Rightarrow> exn + Transaction" where
  "Transaction_new env w ins outs =
     (case w of
        None \<Rightarrow> Inr (Transaction None ins outs None)
      | Some wl \<Rightarrow>
          (case Wallet_sign env wl (Transaction_toJson env (Transaction w ins outs None)) of
             Inl e \<Rightarrow> Inl e
           | Inr sg \<Rightarrow> Inr (Transaction w ins outs (Some sg))))"

definition GenesisTransaction :: "Address \<Rightarrow> int \<Rightarrow> Transaction" where
  "GenesisTransaction recipient amt =
     Transaction None [] [\<lparr>recipientAddress = recipient, amount = amt\<rparr>] (Some ''genesis'')"

text \<open>The three checks of \<^verbatim>\<open>Transaction.verify\<close>, in the order the source computes
  them; each can throw on an input whose output index is out of range, and the
  signature check on a transaction without wallet. The two totals are sums of doubles,
  from the left.\<close>

definition sameWalletCheck :: "Transaction \<Rightarrow> TransactionInput \<Rightarrow> exn + bool" where
  "sameWalletCheck t txin =
     (case parentOutput txin of
        None \<Rightarrow> Inl TypeError
      | Some out \<Rightarrow>
          (case inputs t of
             [] \<Rightarrow> Inl TypeError
           | first # _ \<Rightarrow>
               (case parentOutput first of
                  None \<Rightarrow> Inl TypeError
                | Some out0 \<Rightarrow> Inr (recipientAddress out = recipientAddress out0))))"

definition addInput :: "int \<Rightarrow> TransactionInput \<Rightarrow> exn + int" where
  "addInput acc txin =
     (case parentOutput txin of
        None \<Rightarrow> Inl TypeError
      | Some out \<Rightarrow> Inr (toDouble (amount out + acc)))"

definition totalOut :: "Transaction \<Rightarrow> int" where
  "totalOut t = foldl (\<lambda>acc txout. toDouble (amount txout + acc)) 0 (outputs t)"

definition Transaction_verify :: "externals \<Rightarrow> Transaction \<Rightarrow> exn + bool" where
  "Transaction_verify env t =
     (case every (sameWalletCheck t) (inputs t) of
        Inl e \<Rightarrow> Inl e
      | Inr sameWallet \<Rightarrow>
          (case wallet t of
             None \<Rightarrow> Inl TypeError
           | Some w \<Rightarrow>
               (case verifySignature env (address w) (Transaction_toJson env t) (signature t) of
                  Inl e \<Rightarrow> Inl e
                | Inr correctSignature \<Rightarrow>
                    (case reduce addInput (inputs t) 0 of
                       Inl e \<Rightarrow> Inl e
                     | Inr totalIn \<Rightarrow>
                         Inr (sameWallet \<and> correctSignature \<and> totalOut t \<le> totalIn)))))"

section \<open>Blocks\<close>

definition DIFFICULTY :: nat where
  "DIFFICULTY = 4"

text \<open>\<^verbatim>\<open>2 ** (256 - Block.DIFFICULTY)\<close> is a double; a power of two in range, it is
  exact.\<close>

definition TARGET :: int where
  "TARGET = 2 ^ (256 - DIFFICULTY)"

definition MINING_REWARD :: int where
  "MINING_REWARD = 25"

fun set_nonce :: "int option \<Rightarrow> Block \<Rightarrow> Block" where
  "set_nonce n' (Block c ts a m n h k v d) = Block c ts a m n' h k v d"

fun set_hash :: "string option \<Rightarrow> Block \<Rightarrow> Block" where
  "set_hash h' (Block c ts a m n h k v d) = Block c ts a m n h' k v d"

fun set_validTransaction :: "bool \<Rightarrow> Block \<Rightarrow> Block" where
  "set_validTransaction v' (Block c ts a m n h k v d) = Block c ts a m n h k v' d"

text \<open>\<^verbatim>\<open>Block.toJson\<close> reads \<^verbatim>\<open>this.ancestor.hash\<close> and throws when there is no
  ancestor; \<^verbatim>\<open>GenesisBlock.toJson\<close> overrides it.\<close>

definition Block_toJson :: "externals \<Rightarrow> Block \<Rightarrow> exn + json" where
  "Block_toJson env b =
     (case cls b of
        BlockClass \<Rightarrow>
          (case ancestor b of
             None \<Rightarrow> Inl TypeError
           | Some a \<Rightarrow>
               Inr (JObject
                 (member ''nonce'' (map_option JNumber (nonce b)) @
                  member ''hash'' (map_option JString (hash b)) @
                  [(''blockNumber'', JNumber (blockNumber b))] @
                  member ''ancestor'' (map_option JString (hash a)) @
                  [(''transactions'', JArray (map (Transaction_toJson env) (transactions b))),
                   (''genesisBlock'', JBool False)])))
      | GenesisBlockClass \<Rightarrow>
          Inr (JObject
            ([(''transactions'', JArray []),
              (''ancestor'', JString []),
              (''genesisBlock'', JBool True)] @
             member ''nonce'' (map_option JNumber (nonce b)) @
             member ''hash'' (map_option JString (hash b)) @
             [(''blockNumber'', JNumber (blockNumber b))])))"

definition Block_sha256 :: "externals \<Rightarrow> Block \<Rightarrow> exn + string" where
  "Block_sha256 env b =
     (case Block_toJson env b of
        Inl e \<Rightarrow> Inl e
      | Inr j \<Rightarrow> Inr (js_sha256 env j))"

text \<open>\<^verbatim>\<open>isPoWValid\<close>: the body of the \<^verbatim>\<open>try\<close>, and the method with its
  \<^verbatim>\<open>catch\<close>.\<close>

definition isPoWValid_try :: "externals \<Rightarrow> Block \<Rightarrow> string \<Rightarrow> exn + bool" where
  "isPoWValid_try env b pow =
     (let pow' = (if take 2 pow = ''0x'' then pow else ''0x'' @ pow)
      in case BigNumber_new env pow' of
           Inl e \<Rightarrow> Inl e
         | Inr x \<Rightarrow>
             (case BigNumber_new env (Number_toString (blockDifficulty b)) of
                Inl e \<Rightarrow> Inl e
              | Inr y \<Rightarrow> Inr (lessThanOrEqualTo x y)))"

definition isPoWValid :: "externals \<Rightarrow> Block \<Rightarrow> string \<Rightarrow> exn + bool" where
  "isPoWValid env b pow =
     (case isPoWValid_try env b pow of
        Inl e \<Rightarrow> Inr False
      | Inr r \<Rightarrow> Inr r)"

text \<open>\<^verbatim>\<open>mine\<close>: the loop has no bound, so it is a partial function; \<open>None\<close> is a search
  that never ends. \<open>mine_loop env b n\<close> is the loop entered with \<^verbatim>\<open>this.nonce\<close> at
  \<open>n\<close>.\<close>

partial_function (option) mine_loop :: "externals \<Rightarrow> Block \<Rightarrow> int \<Rightarrow> (exn + Block) option" where
  "mine_loop env b n =
     (case Block_sha256 env (set_nonce (Some n) b) of
        Inl e \<Rightarrow> Some (Inl e)
      | Inr pow \<Rightarrow>
          (case isPoWValid env (set_nonce (Some n) b) pow of
             Inl e \<Rightarrow> Some (Inl e)
           | Inr valid \<Rightarrow>
               if valid then Some (Inr (set_hash (Some pow) (set_nonce (Some n) b)))
               else mine_loop env b (n + 1)))"

definition mine :: "externals \<Rightarrow> Block \<Rightarrow> (exn + Block) option" where
  "mine env b = mine_loop env b 0"

text \<open>The constructor of \<^verbatim>\<open>Block\<close>, for either class: it prepends the reward
  transaction, numbers the block, verifies the given transactions and mines when all of
  them verify.\<close>

definition Block_new ::
  "externals \<Rightarrow> BlockClass \<Rightarrow> Transaction list \<Rightarrow> Block option \<Rightarrow> Address
     \<Rightarrow> (exn + Block) option" where
  "Block_new env c txs anc miner =
     (let this = Block c (GenesisTransaction miner MINING_REWARD # txs) anc miner None None
                   (case anc of Some a \<Rightarrow> blockNumber a + 1 | None \<Rightarrow> 0) False TARGET
      in case every (Transaction_verify env) txs of
           Inl e \<Rightarrow> Some (Inl e)
         | Inr valid \<Rightarrow>
             if valid then mine env (set_validTransaction True this)
             else Some (Inr (set_validTransaction False this)))"


section \<open>The blockchain\<close>

definition SATOSHI_NAKAMOTO :: Address where
  "SATOSHI_NAKAMOTO = ''123456''"


text \<open>
  The state of a \<^verbatim>\<open>Blockchain\<close> object: the chain, the pool, and the two files it
  writes. A file is absent, unreadable (a read error other than \<^verbatim>\<open>ENOENT\<close>, or
  content that does not parse), or holds what was saved in it; what is read back from
  it is up to \<^verbatim>\<open>deserialize\<close>. The set of peer nodes plays no part in the operations
  below and is left out.
\<close>

datatype 'a stored = Absent | Unreadable | Stored 'a

record Blockchain =
  blocks :: "Block list"
  transactionPool :: "Transaction list"
  chainFile :: "Block list stored"
  poolFile :: "Transaction list stored"

text \<open>\<^verbatim>\<open>deepEqual\<close> of the deep-equal package compares the own properties of two
  objects recursively and does not look at their classes.\<close>

fun deepEqual :: "Block \<Rightarrow> Block \<Rightarrow> bool" where
  "deepEqual (Block c ts a m n h k v d) (Block c' ts' a' m' n' h' k' v' d') =
     (ts = ts' \<and>
      (case a of
         None \<Rightarrow> a' = None
       | Some x \<Rightarrow> (case a' of None \<Rightarrow> False | Some y \<Rightarrow> deepEqual x y)) \<and>
      m = m' \<and> n = n' \<and> h = h' \<and> k = k' \<and> v = v' \<and> d = d')"

text \<open>\<^verbatim>\<open>initTransactionPool\<close>: whatever is thrown while the pool is read gives the
  empty pool.\<close>

definition initTransactionPool :: "externals \<Rightarrow> Transaction list stored \<Rightarrow> Transaction list" where
  "initTransactionPool env f =
     (case f of
        Stored txpool \<Rightarrow>
          (case deserialize_pool env txpool of
             Inl e \<Rightarrow> []
           | Inr pool \<Rightarrow> pool)
      | _ \<Rightarrow> [])"

definition addToTransactionPool :: "Blockchain \<Rightarrow> Transaction \<Rightarrow> Blockchain" where
  "addToTransactionPool this tx =
     this\<lparr>transactionPool := transactionPool this @ [tx],
          poolFile := Stored (transactionPool this @ [tx])\<rparr>"

definition clearTransactionPool :: "Blockchain \<Rightarrow> Blockchain" where
  "clearTransactionPool this = this\<lparr>transactionPool := [], poolFile := Stored []\<rparr>"

definition save :: "Blockchain \<Rightarrow> Blockchain" where
  "save this = this\<lparr>chainFile := Stored (blocks this)\<rparr>"

text \<open>The loop of the static \<^verbatim>\<open>verify\<close>, from index \<open>i\<close> on; each \<^verbatim>\<open>throw\<close> is an
  \<open>Inl\<close>.\<close>

function verify_from :: "externals \<Rightarrow> Block list \<Rightarrow> nat \<Rightarrow> exn + bool" where
  "verify_from env bs i =
     (if i < length bs then
        (let current = bs ! i in
         if blockNumber current \<noteq> int i then Inl (Error ''Invalid block number'')
         else
           (let previous = bs ! (i - 1) in
            case ancestor current of
              None \<Rightarrow> Inl TypeError
            | Some a \<Rightarrow>
                (case Block_sha256 env previous of
                   Inl e \<Rightarrow> Inl e
                 | Inr h \<Rightarrow>
                     if hash a \<noteq> Some h then Inl (Error ''Invalid previous block hash'')
                     else
                       (case Block_sha256 env current of
                          Inl e \<Rightarrow> Inl e
                        | Inr pow \<Rightarrow>
                            (case isPoWValid env current pow of
                               Inl e \<Rightarrow> Inl e
                             | Inr valid \<Rightarrow>
                                 if \<not> valid then Inl (Error ''Invalid difficulty'')
                                 else verify_from env bs (i + 1))))))
      else Inr True)"
  by pat_completeness auto
termination
  by (relation "measure (\<lambda>(env, bs, i). length bs - i)") auto

declare verify_from.simps [simp del]

definition verify_try :: "externals \<Rightarrow> Block \<Rightarrow> Block list \<Rightarrow> exn + bool" where
  "verify_try env G bs =
     (if length bs = 0 then Inl (Error ''Blockchain can't be empty!'')
      else if \<not> deepEqual (bs ! 0) G then Inl (Error ''Invalid first block!'')
      else verify_from env bs 1)"

text \<open>The static \<^verbatim>\<open>Blockchain.verify\<close>: every error is caught and turned into
  \<^verbatim>\<open>false\<close>.\<close>

definition Blockchain_verify :: "externals \<Rightarrow> Block \<Rightarrow> Block list \<Rightarrow> bool" where
  "Blockchain_verify env G bs =
     (case verify_try env G bs of
        Inl e \<Rightarrow> False
      | Inr r \<Rightarrow> r)"

text \<open>The private method \<^verbatim>\<open>verify\<close>.\<close>

definition verify :: "externals \<Rightarrow> Block \<Rightarrow> Block list \<Rightarrow> exn + unit" where
  "verify env G bs =
     (if \<not> Blockchain_verify env G bs then Inl (Error ''Invalid blockchain!'') else Inr ())"

text \<open>\<^verbatim>\<open>load\<close>: a missing file gives the chain of the Genesis Block alone; any other
  failure, that of \<^verbatim>\<open>deserialize\<close> included, is thrown again, and the \<^verbatim>\<open>finally\<close>
  clause then verifies a chain that was never assigned, which throws in its place.\<close>

definition load :: "externals \<Rightarrow> Block \<Rightarrow> Block list stored \<Rightarrow> exn + Block list" where
  "load env G f =
     (case f of
        Stored saved \<Rightarrow>
          (case deserialize_blocks env saved of
             Inl e \<Rightarrow> Inl (Error ''Invalid blockchain!'')
           | Inr bs \<Rightarrow> (case verify env G bs of Inl e \<Rightarrow> Inl e | Inr _ \<Rightarrow> Inr bs))
      | Absent \<Rightarrow> (case verify env G [G] of Inl e \<Rightarrow> Inl e | Inr _ \<Rightarrow> Inr [G])
      | Unreadable \<Rightarrow> Inl (Error ''Invalid blockchain!''))"

text \<open>The constructor of \<^verbatim>\<open>Blockchain\<close>, from the two files it finds.\<close>

definition Blockchain_new ::
  "externals \<Rightarrow> Block \<Rightarrow> Block list stored \<Rightarrow> Transaction list stored \<Rightarrow> exn + Blockchain" where
  "Blockchain_new env G cf pf =
     (case load env G cf of
        Inl e \<Rightarrow> Inl e
      | Inr bs \<Rightarrow>
          Inr \<lparr>blocks = bs, transactionPool = initTransactionPool env pf,
               chainFile = cf, poolFile = pf\<rparr>)"

text \<open>The loop of \<^verbatim>\<open>consensus\<close> from index \<open>i\<close> on, with the two variables it
  updates.\<close>

function consensus_loop ::
  "externals \<Rightarrow> Block \<Rightarrow> Block list list \<Rightarrow> nat \<Rightarrow> nat \<Rightarrow> int \<Rightarrow> nat \<times> int" where
  "consensus_loop env G blockchains i maxLength bestCandidateIndex =
     (if i < length blockchains then
        (let candidate = blockchains ! i in
         if length candidate \<le> maxLength
         then consensus_loop env G blockchains (i + 1) maxLength bestCandidateIndex
         else if Blockchain_verify env G candidate
         then consensus_loop env G blockchains (i + 1) (length candidate) (int i)
         else consensus_loop env G blockchains (i + 1) maxLength bestCandidateIndex)
      else (maxLength, bestCandidateIndex))"
  by pat_completeness auto
termination
  by (relation "measure (\<lambda>(env, G, blockchains, i, m, b). length blockchains - i)") auto

declare consensus_loop.simps [simp del]

definition consensus ::
  "externals \<Rightarrow> Block \<Rightarrow> Blockchain \<Rightarrow> Block list list \<Rightarrow> bool \<times> Blockchain" where
  "consensus env G this blockchains =
     (let (maxLength, bestCandidateIndex) = consensus_loop env G blockchains 0 0 (- 1)
      in if bestCandidateIndex \<noteq> - 1 \<and>
            (maxLength > length (blocks this) \<or> \<not> Blockchain_verify env G (blocks this))
         then (True, save (this\<lparr>blocks := blockchains ! nat bestCandidateIndex\<rparr>))
         else (False, this))"

text \<open>\<^verbatim>\<open>Array.prototype.findIndex\<close>: the index of the first element that satisfies
  the predicate, \<open>- 1\<close> when there is none.\<close>

fun findIndex :: "('a \<Rightarrow> bool) \<Rightarrow> 'a list \<Rightarrow> int" where
  "findIndex p [] = - 1"
| "findIndex p (x # xs) =
     (if p x then 0 else (let k = findIndex p xs in if k = - 1 then - 1 else k + 1))"

definition balanceInput :: "Address \<Rightarrow> int \<Rightarrow> TransactionInput \<Rightarrow> exn + int" where
  "balanceInput walletAddress balance txin =
     (case parentOutput txin of
        None \<Rightarrow> Inl TypeError
      | Some out \<Rightarrow>
          Inr (if recipientAddress out = walletAddress then toDouble (balance - amount out)
               else balance))"

definition balanceOutput :: "Address \<Rightarrow> int \<Rightarrow> TransactionOutput \<Rightarrow> int" where
  "balanceOutput walletAddress balance txout =
     (if recipientAddress txout = walletAddress then toDouble (balance + amount txout)
      else balance)"

definition balanceTransaction :: "Address \<Rightarrow> int \<Rightarrow> Transaction \<Rightarrow> exn + int" where
  "balanceTransaction walletAddress balance tx =
     (case reduce (balanceInput walletAddress) (inputs tx) balance of
        Inl e \<Rightarrow> Inl e
      | Inr balance' \<Rightarrow> Inr (foldl (balanceOutput walletAddress) balance' (outputs tx)))"

definition computeBalance :: "Blockchain \<Rightarrow> Address \<Rightarrow> exn + int" where
  "computeBalance this walletAddress =
     reduce (balanceTransaction walletAddress) (concat (map transactions (blocks this))) 0"

text \<open>\<^verbatim>\<open>submitTransaction\<close>: the inputs it gathers, then the method. The result is
  the exception, if one is thrown, and the state afterwards.\<close>

definition gatherInputs :: "Blockchain \<Rightarrow> Address \<Rightarrow> TransactionInput list" where
  "gatherInputs this sender =
     concat (map (\<lambda>tx.
         (let outputIdx = findIndex (\<lambda>txout. recipientAddress txout = sender) (outputs tx)
          in if outputIdx > - 1 then [TransactionInput tx outputIdx] else []))
       (concat (map transactions (blocks this))))"

definition submitTransaction ::
  "externals \<Rightarrow> Blockchain \<Rightarrow> Wallet \<Rightarrow> Address \<Rightarrow> int \<Rightarrow> (exn + unit) \<times> Blockchain" where
  "submitTransaction env this senderWallet recipient val =
     (let txinputs = gatherInputs this (address senderWallet)
      in case computeBalance this (address senderWallet) of
           Inl e \<Rightarrow> (Inl e, this)
         | Inr senderBalance \<Rightarrow>
             (let txOutputs =
                    [\<lparr>recipientAddress = recipient, amount = val\<rparr>,
                     \<lparr>recipientAddress = address senderWallet,
                      amount = \<bar>toDouble (senderBalance - val)\<bar>\<rparr>]
              in case Transaction_new env (Some senderWallet) txinputs txOutputs of
                   Inl e \<Rightarrow> (Inl e, this)
                 | Inr tx \<Rightarrow> (Inr (), addToTransactionPool this tx)))"

definition getLastBlock :: "Blockchain \<Rightarrow> Block option" where
  "getLastBlock this = (if blocks this = [] then None else Some (last (blocks this)))"

text \<open>\<^verbatim>\<open>createBlock\<close>: \<open>None\<close> when mining never ends; otherwise the block or the
  exception, and the state afterwards.\<close>

definition createBlock ::
  "externals \<Rightarrow> Blockchain \<Rightarrow> Address \<Rightarrow> ((exn + Block) \<times> Blockchain) option" where
  "createBlock env this miner =
     (case Block_new env BlockClass (transactionPool this) (getLastBlock this) miner of
        None \<Rightarrow> None
      | Some (Inl e) \<Rightarrow> Some (Inl e, this)
      | Some (Inr newBlock) \<Rightarrow>
          if \<not> validTransaction newBlock then Some (Inl (Thrown ''Invalid transaction''), this)
          else Some (Inr newBlock,
                     save (clearTransactionPool (this\<lparr>blocks := blocks this @ [newBlock]\<rparr>))))"

text \<open>What the loop of \<^verbatim>\<open>consensus\<close> has established when it has looked at the first
  \<open>i\<close> candidates: either none of them is valid and the variables are unchanged, or
  \<open>b\<close> is the index of a valid one among them whose length \<open>m\<close> no valid one exceeds.\<close>

definition best_upto ::
  "externals \<Rightarrow> Block \<Rightarrow> Block list list \<Rightarrow> nat \<Rightarrow> nat \<Rightarrow> int \<Rightarrow> bool" where
  "best_upto env G cs i m b \<longleftrightarrow>
     (b = - 1 \<and> m = 0 \<and> (\<forall>j<i. \<not> Blockchain_verify env G (cs ! j)))
     \<or> (0 \<le> b \<and> nat b < i \<and> Blockchain_verify env G (cs ! nat b) \<and> length (cs ! nat b) = m
        \<and> (\<forall>j<i. Blockchain_verify env G (cs ! j) \<longrightarrow> length (cs ! j) \<le> m))"

subsection \<open>A concrete instance of the libraries\<close>

text \<open>For evaluation at concrete inputs: a digest that is the same for every message,
  a signature that is the private key itself and verifies under the address equal to
  it, a big-number constructor that throws on every string it is asked about, and a
  \<^verbatim>\<open>deserialize\<close> that throws on every file.\<close>

definition example_externals :: externals where
  "example_externals =
     \<lparr>js_sha256 = (\<lambda>j. ''00''),
      rsa_sign = (\<lambda>key j. Inr key),
      rsa_verify = (\<lambda>addr j sg. Inr (sg = Some addr)),
      bignumber_other = (\<lambda>s. Inl (LibraryError ''not a number'')),
      deserialize_blocks = (\<lambda>bs. Inl (LibraryError ''deserialize'')),
      deserialize_pool = (\<lambda>txs. Inl (LibraryError ''deserialize''))\<rparr>"

text \<open>The same libraries, but with a signature check that finds every key malformed and
  throws.\<close>

definition example_badkeys :: externals where
  "example_badkeys =
     \<lparr>js_sha256 = (\<lambda>j. ''00''),
      rsa_sign = (\<lambda>key j. Inr key),
      rsa_verify = (\<lambda>addr j sg. Inl (LibraryError ''invalid key'')),
      bignumber_other = (\<lambda>s. Inl (LibraryError ''not a number'')),
      deserialize_blocks = (\<lambda>bs. Inl (LibraryError ''deserialize'')),
      deserialize_pool = (\<lambda>txs. Inl (LibraryError ''deserialize''))\<rparr>"

text \<open>Values under these libraries. The Genesis Block and a block mined on top of it
  to \<^verbatim>\<open>alice\<close>, both sealed at the first nonce; the node that has just been created
  on empty storage, and the same node after it has mined that block.\<close>

definition example_genesis :: Block where
  "example_genesis =
     Block GenesisBlockClass [GenesisTransaction SATOSHI_NAKAMOTO MINING_REWARD] None
       SATOSHI_NAKAMOTO (Some 0) (Some ''00'') 0 True TARGET"

definition example_block :: Block where
  "example_block =
     Block BlockClass [GenesisTransaction ''alice'' MINING_REWARD] (Some example_genesis)
       ''alice'' (Some 0) (Some ''00'') 1 True TARGET"

definition example_fresh :: Blockchain where
  "example_fresh =
     \<lparr>blocks = [example_genesis], transactionPool = [], chainFile = Absent, poolFile = Absent\<rparr>"

definition example_mined :: Blockchain where
  "example_mined =
     \<lparr>blocks = [example_genesis, example_block], transactionPool = [],
      chainFile = Stored [example_genesis, example_block], poolFile = Stored []\<rparr>"

text \<open>Two wallets, and two transactions signed by them: \<^verbatim>\<open>alice\<close> paying 5 of her
  reward to herself, and \<^verbatim>\<open>mallory\<close> spending the reward of \<^verbatim>\<open>alice\<close>.\<close>

definition example_alice :: Wallet where
  "example_alice = \<lparr>privateKey = ''alice'', address = ''alice''\<rparr>"

definition example_mallory :: Wallet where
  "example_mallory = \<lparr>privateKey = ''mallory'', address = ''mallory''\<rparr>"

definition example_selfpay :: Transaction where
  "example_selfpay =
     Transaction (Some example_alice)
       [TransactionInput (GenesisTransaction ''alice'' MINING_REWARD) 0]
       [\<lparr>recipientAddress = ''alice'', amount = 5\<rparr>,
        \<lparr>recipientAddress = ''alice'', amount = 20\<rparr>]
       (Some ''alice'')"

definition example_theft :: Transaction where
  "example_theft =
     Transaction (Some example_mallory)
       [TransactionInput (GenesisTransaction ''alice'' MINING_REWARD) 0]
       [\<lparr>recipientAddress = ''mallory'', amount = 25\<rparr>]
       (Some ''mallory'')"

text \<open>The node with the first transaction in its pool, and after \<^verbatim>\<open>bob\<close> has mined
  it.\<close>

definition example_pending :: Blockchain where
  "example_pending =
     \<lparr>blocks = [example_genesis, example_block], transactionPool = [example_selfpay],
      chainFile = Stored [example_genesis, example_block],
      poolFile = Stored [example_selfpay]\<rparr>"

definition example_block2 :: Block where
  "example_block2 =
     Block BlockClass [GenesisTransaction ''bob'' MINING_REWARD, example_selfpay]
       (Some example_block) ''bob'' (Some 0) (Some ''00'') 2 True TARGET"

definition example_mined2 :: Blockchain where
  "example_mined2 =
     \<lparr>blocks = [example_genesis, example_block, example_block2], transactionPool = [],
      chainFile = Stored [example_genesis, example_block, example_block2],
      poolFile = Stored []\<rparr>"

text \<open>A transaction of \<^verbatim>\<open>alice\<close> whose signature is not hers, the node with it in
  its pool, and the transaction that \<^verbatim>\<open>submitTransaction\<close> builds for her on the
  fresh node, where no output is addressed to her.\<close>

definition example_forged :: Transaction where
  "example_forged =
     Transaction (Some example_alice)
       [TransactionInput (GenesisTransaction ''alice'' MINING_REWARD) 0]
       [\<lparr>recipientAddress = ''bob'', amount = 25\<rparr>]
       (Some ''forged'')"

definition example_forging :: Blockchain where
  "example_forging =
     \<lparr>blocks = [example_genesis, example_block], transactionPool = [example_forged],
      chainFile = Stored [example_genesis, example_block],
      poolFile = Stored [example_forged]\<rparr>"

definition example_unfunded :: Transaction where
  "example_unfunded =
     Transaction (Some example_alice) []
       [\<lparr>recipientAddress = ''bob'', amount = 5\<rparr>,
        \<lparr>recipientAddress = ''alice'', amount = 5\<rparr>]
       (Some ''alice'')"

text \<open>The node with the transaction of \<^verbatim>\<open>mallory\<close> in its pool, the block that
  \<^verbatim>\<open>bob\<close> mines from it, and the node afterwards.\<close>

definition example_stealing :: Blockchain where
  "example_stealing =
     \<lparr>blocks = [example_genesis, example_block], transactionPool = [example_theft],
      chainFile = Stored [example_genesis, example_block],
      poolFile = Stored [example_theft]\<rparr>"

definition example_block3 :: Block where
  "example_block3 =
     Block BlockClass [GenesisTransaction ''bob'' MINING_REWARD, example_theft]
       (Some example_block) ''bob'' (Some 0) (Some ''00'') 2 True TARGET"

definition example_robbed :: Blockchain where
  "example_robbed =
     \<lparr>blocks = [example_genesis, example_block, example_block3], transactionPool = [],
      chainFile = Stored [example_genesis, example_block, example_block3],
      poolFile = Stored []\<rparr>"

section \<open>The proof-of-work predicate\<close>

subsection \<open>The text of the target\<close>

lemma numDigits_eqI:
  "2 \<le> b \<Longrightarrow> b ^ n \<le> x \<Longrightarrow> x < b ^ Suc n \<Longrightarrow> numDigits b x = Suc n"
proof (induction n arbitrary: x)
  case 0
  then show ?case by (simp add: numDigits.simps)
next
  case (Suc n)
  from Suc.prems have b: "0 < b" by simp
  have "b * b ^ n \<le> x"
    using Suc.prems(2) by simp
  moreover have "b \<le> b * b ^ n"
    using b by simp
  ultimately have ge: "b \<le> x"
    by (rule le_trans [rotated])
  have lo: "b ^ n \<le> x div b"
    using Suc.prems(2) b by (simp add: less_eq_div_iff_mult_less_eq mult.commute)
  have hi: "x div b < b ^ Suc n"
    using Suc.prems(3) b by (simp add: div_less_iff_less_mult mult.commute)
  have "numDigits b (x div b) = Suc n"
    using Suc.IH [OF Suc.prems(1) lo hi] .
  then show ?case
    using ge Suc.prems(1) by (subst numDigits.simps) simp
qed

lemma div_eqI:
  "0 < d \<Longrightarrow> q * d \<le> x \<Longrightarrow> x < (q + 1) * d \<Longrightarrow> x div d = (q::nat)"
  by (metis Suc_eq_plus1 div_less_iff_less_mult le_antisym less_Suc_eq_le
      less_eq_div_iff_mult_less_eq)

lemma numDigits_10_TARGET: "numDigits 10 7237005577332262213973186563042994240829374041602535252466099000494570602496 = 76"
  using numDigits_eqI [of 10 75 "7237005577332262213973186563042994240829374041602535252466099000494570602496"] by simp

lemma numDigits_2_TARGET: "numDigits 2 7237005577332262213973186563042994240829374041602535252466099000494570602496 = 253"
  using numDigits_eqI [of 2 252 "7237005577332262213973186563042994240829374041602535252466099000494570602496"] by simp

text \<open>The doubles next to \<open>2 ^ 252\<close> are \<open>2 ^ 252 - 2 ^ 199\<close> and
  \<open>2 ^ 252 + 2 ^ 200\<close>; a number converts back to \<open>2 ^ 252\<close> between the two half-way
  points.\<close>

lemma roundsTo_TARGET:
  "roundsTo 7237005577332262213973186563042994240829374041602535252466099000494570602496 r = (28948022309329048855892746252171976963317496166410141009864396001978282409984 \<le> 4 * r + 1606938044258990275541962092341162602522202993782792835301376 \<and> 4 * r \<le> 28948022309329052069768834770152528047241680848735346054270383567563953012736)"
proof -
  have d: "(7237005577332262213973186563042994240829374041602535252466099000494570602496::nat) div 2 ^ 200 = 2 ^ 52"
    by simp
  have e: "(253::nat) - 53 = 200"
    by simp
  show ?thesis
    unfolding roundsTo_def numDigits_2_TARGET Let_def e d by simp
qed

lemma shortest_next:
  assumes "k < numDigits 10 x" and "p = numDigits 10 x - k" and "x div 10 ^ p = s1"
    and "\<not> roundsTo x (s1 * 10 ^ p)" and "\<not> roundsTo x ((s1 + 1) * 10 ^ p)"
  shows "shortest k x = shortest (k + 1) x"
  using assms by (subst shortest.simps) (simp add: Let_def)

lemma shortest_found:
  assumes "k < numDigits 10 x" and "p = numDigits 10 x - k" and "x div 10 ^ p = s1"
    and "roundsTo x (s1 * 10 ^ p)" and "roundsTo x ((s1 + 1) * 10 ^ p)"
    and "x - s1 * 10 ^ p < (s1 + 1) * 10 ^ p - x"
  shows "shortest k x = (s1, p)"
  using assms by (subst shortest.simps) (simp add: Let_def)

text \<open>No decimal of fewer than 16 digits converts back to \<open>2 ^ 252\<close>; with 16 digits
  both \<open>7237005577332262 * 10 ^ 60\<close> and the next one do, and the first is nearer.\<close>

lemma shortest_TARGET: "shortest 1 7237005577332262213973186563042994240829374041602535252466099000494570602496 = (7237005577332262, 60)"
proof -
  have e1: "shortest 1 7237005577332262213973186563042994240829374041602535252466099000494570602496 = shortest 2 7237005577332262213973186563042994240829374041602535252466099000494570602496"
  proof -
    have "shortest 1 7237005577332262213973186563042994240829374041602535252466099000494570602496 = shortest (1 + 1) 7237005577332262213973186563042994240829374041602535252466099000494570602496"
    proof (rule shortest_next [where p = 75 and ?s1.0 = 7])
      show "7237005577332262213973186563042994240829374041602535252466099000494570602496 div 10 ^ 75 = (7::nat)"
        by (rule div_eqI) simp_all
    qed (simp_all add: numDigits_10_TARGET roundsTo_TARGET)
    then show ?thesis
      by (simp only: one_add_one)
  qed
  have e2: "shortest 2 7237005577332262213973186563042994240829374041602535252466099000494570602496 = shortest 3 7237005577332262213973186563042994240829374041602535252466099000494570602496"
  proof -
    have "shortest 2 7237005577332262213973186563042994240829374041602535252466099000494570602496 = shortest (2 + 1) 7237005577332262213973186563042994240829374041602535252466099000494570602496"
    proof (rule shortest_next [where p = 74 and ?s1.0 = 72])
      show "7237005577332262213973186563042994240829374041602535252466099000494570602496 div 10 ^ 74 = (72::nat)"
        by (rule div_eqI) simp_all
    qed (simp_all add: numDigits_10_TARGET roundsTo_TARGET)
    then show ?thesis
      by simp
  qed
  have e3: "shortest 3 7237005577332262213973186563042994240829374041602535252466099000494570602496 = shortest 4 7237005577332262213973186563042994240829374041602535252466099000494570602496"
  proof -
    have "shortest 3 7237005577332262213973186563042994240829374041602535252466099000494570602496 = shortest (3 + 1) 7237005577332262213973186563042994240829374041602535252466099000494570602496"
    proof (rule shortest_next [where p = 73 and ?s1.0 = 723])
      show "7237005577332262213973186563042994240829374041602535252466099000494570602496 div 10 ^ 73 = (723::nat)"
        by (rule div_eqI) simp_all
    qed (simp_all add: numDigits_10_TARGET roundsTo_TARGET)
    then show ?thesis
      by simp
  qed
  have e4: "shortest 4 7237005577332262213973186563042994240829374041602535252466099000494570602496 = shortest 5 7237005577332262213973186563042994240829374041602535252466099000494570602496"
  proof -
    have "shortest 4 7237005577332262213973186563042994240829374041602535252466099000494570602496 = shortest (4 + 1) 7237005577332262213973186563042994240829374041602535252466099000494570602496"
    proof (rule shortest_next [where p = 72 and ?s1.0 = 7237])
      show "7237005577332262213973186563042994240829374041602535252466099000494570602496 div 10 ^ 72 = (7237::nat)"
        by (rule div_eqI) simp_all
    qed (simp_all add: numDigits_10_TARGET roundsTo_TARGET)
    then show ?thesis
      by simp
  qed
  have e5: "shortest 5 7237005577332262213973186563042994240829374041602535252466099000494570602496 = shortest 6 7237005577332262213973186563042994240829374041602535252466099000494570602496"
  proof -
    have "shortest 5 7237005577332262213973186563042994240829374041602535252466099000494570602496 = shortest (5 + 1) 7237005577332262213973186563042994240829374041602535252466099000494570602496"
    proof (rule shortest_next [where p = 71 and ?s1.0 = 72370])
      show "7237005577332262213973186563042994240829374041602535252466099000494570602496 div 10 ^ 71 = (72370::nat)"
        by (rule div_eqI) simp_all
    qed (simp_all add: numDigits_10_TARGET roundsTo_TARGET)
    then show ?thesis
      by simp
  qed
  have e6: "shortest 6 7237005577332262213973186563042994240829374041602535252466099000494570602496 = shortest 7 7237005577332262213973186563042994240829374041602535252466099000494570602496"
  proof -
    have "shortest 6 7237005577332262213973186563042994240829374041602535252466099000494570602496 = shortest (6 + 1) 7237005577332262213973186563042994240829374041602535252466099000494570602496"
    proof (rule shortest_next [where p = 70 and ?s1.0 = 723700])
      show "7237005577332262213973186563042994240829374041602535252466099000494570602496 div 10 ^ 70 = (723700::nat)"
        by (rule div_eqI) simp_all
    qed (simp_all add: numDigits_10_TARGET roundsTo_TARGET)
    then show ?thesis
      by simp
  qed
  have e7: "shortest 7 7237005577332262213973186563042994240829374041602535252466099000494570602496 = shortest 8 7237005577332262213973186563042994240829374041602535252466099000494570602496"
  proof -
    have "shortest 7 7237005577332262213973186563042994240829374041602535252466099000494570602496 = shortest (7 + 1) 7237005577332262213973186563042994240829374041602535252466099000494570602496"
    proof (rule shortest_next [where p = 69 and ?s1.0 = 7237005])
      show "7237005577332262213973186563042994240829374041602535252466099000494570602496 div 10 ^ 69 = (7237005::nat)"
        by (rule div_eqI) simp_all
    qed (simp_all add: numDigits_10_TARGET roundsTo_TARGET)
    then show ?thesis
      by simp
  qed
  have e8: "shortest 8 7237005577332262213973186563042994240829374041602535252466099000494570602496 = shortest 9 7237005577332262213973186563042994240829374041602535252466099000494570602496"
  proof -
    have "shortest 8 7237005577332262213973186563042994240829374041602535252466099000494570602496 = shortest (8 + 1) 7237005577332262213973186563042994240829374041602535252466099000494570602496"
    proof (rule shortest_next [where p = 68 and ?s1.0 = 72370055])
      show "7237005577332262213973186563042994240829374041602535252466099000494570602496 div 10 ^ 68 = (72370055::nat)"
        by (rule div_eqI) simp_all
    qed (simp_all add: numDigits_10_TARGET roundsTo_TARGET)
    then show ?thesis
      by simp
  qed
  have e9: "shortest 9 7237005577332262213973186563042994240829374041602535252466099000494570602496 = shortest 10 7237005577332262213973186563042994240829374041602535252466099000494570602496"
  proof -
    have "shortest 9 7237005577332262213973186563042994240829374041602535252466099000494570602496 = shortest (9 + 1) 7237005577332262213973186563042994240829374041602535252466099000494570602496"
    proof (rule shortest_next [where p = 67 and ?s1.0 = 723700557])
      show "7237005577332262213973186563042994240829374041602535252466099000494570602496 div 10 ^ 67 = (723700557::nat)"
        by (rule div_eqI) simp_all
    qed (simp_all add: numDigits_10_TARGET roundsTo_TARGET)
    then show ?thesis
      by simp
  qed
  have e10: "shortest 10 7237005577332262213973186563042994240829374041602535252466099000494570602496 = shortest 11 7237005577332262213973186563042994240829374041602535252466099000494570602496"
  proof -
    have "shortest 10 7237005577332262213973186563042994240829374041602535252466099000494570602496 = shortest (10 + 1) 7237005577332262213973186563042994240829374041602535252466099000494570602496"
    proof (rule shortest_next [where p = 66 and ?s1.0 = 7237005577])
      show "7237005577332262213973186563042994240829374041602535252466099000494570602496 div 10 ^ 66 = (7237005577::nat)"
        by (rule div_eqI) simp_all
    qed (simp_all add: numDigits_10_TARGET roundsTo_TARGET)
    then show ?thesis
      by simp
  qed
  have e11: "shortest 11 7237005577332262213973186563042994240829374041602535252466099000494570602496 = shortest 12 7237005577332262213973186563042994240829374041602535252466099000494570602496"
  proof -
    have "shortest 11 7237005577332262213973186563042994240829374041602535252466099000494570602496 = shortest (11 + 1) 7237005577332262213973186563042994240829374041602535252466099000494570602496"
    proof (rule shortest_next [where p = 65 and ?s1.0 = 72370055773])
      show "7237005577332262213973186563042994240829374041602535252466099000494570602496 div 10 ^ 65 = (72370055773::nat)"
        by (rule div_eqI) simp_all
    qed (simp_all add: numDigits_10_TARGET roundsTo_TARGET)
    then show ?thesis
      by simp
  qed
  have e12: "shortest 12 7237005577332262213973186563042994240829374041602535252466099000494570602496 = shortest 13 7237005577332262213973186563042994240829374041602535252466099000494570602496"
  proof -
    have "shortest 12 7237005577332262213973186563042994240829374041602535252466099000494570602496 = shortest (12 + 1) 7237005577332262213973186563042994240829374041602535252466099000494570602496"
    proof (rule shortest_next [where p = 64 and ?s1.0 = 723700557733])
      show "7237005577332262213973186563042994240829374041602535252466099000494570602496 div 10 ^ 64 = (723700557733::nat)"
        by (rule div_eqI) simp_all
    qed (simp_all add: numDigits_10_TARGET roundsTo_TARGET)
    then show ?thesis
      by simp
  qed
  have e13: "shortest 13 7237005577332262213973186563042994240829374041602535252466099000494570602496 = shortest 14 7237005577332262213973186563042994240829374041602535252466099000494570602496"
  proof -
    have "shortest 13 7237005577332262213973186563042994240829374041602535252466099000494570602496 = shortest (13 + 1) 7237005577332262213973186563042994240829374041602535252466099000494570602496"
    proof (rule shortest_next [where p = 63 and ?s1.0 = 7237005577332])
      show "7237005577332262213973186563042994240829374041602535252466099000494570602496 div 10 ^ 63 = (7237005577332::nat)"
        by (rule div_eqI) simp_all
    qed (simp_all add: numDigits_10_TARGET roundsTo_TARGET)
    then show ?thesis
      by simp
  qed
  have e14: "shortest 14 7237005577332262213973186563042994240829374041602535252466099000494570602496 = shortest 15 7237005577332262213973186563042994240829374041602535252466099000494570602496"
  proof -
    have "shortest 14 7237005577332262213973186563042994240829374041602535252466099000494570602496 = shortest (14 + 1) 7237005577332262213973186563042994240829374041602535252466099000494570602496"
    proof (rule shortest_next [where p = 62 and ?s1.0 = 72370055773322])
      show "7237005577332262213973186563042994240829374041602535252466099000494570602496 div 10 ^ 62 = (72370055773322::nat)"
        by (rule div_eqI) simp_all
    qed (simp_all add: numDigits_10_TARGET roundsTo_TARGET)
    then show ?thesis
      by simp
  qed
  have e15: "shortest 15 7237005577332262213973186563042994240829374041602535252466099000494570602496 = shortest 16 7237005577332262213973186563042994240829374041602535252466099000494570602496"
  proof -
    have "shortest 15 7237005577332262213973186563042994240829374041602535252466099000494570602496 = shortest (15 + 1) 7237005577332262213973186563042994240829374041602535252466099000494570602496"
    proof (rule shortest_next [where p = 61 and ?s1.0 = 723700557733226])
      show "7237005577332262213973186563042994240829374041602535252466099000494570602496 div 10 ^ 61 = (723700557733226::nat)"
        by (rule div_eqI) simp_all
    qed (simp_all add: numDigits_10_TARGET roundsTo_TARGET)
    then show ?thesis
      by simp
  qed
  have e16: "shortest 16 7237005577332262213973186563042994240829374041602535252466099000494570602496 = (7237005577332262, 60)"
  proof (rule shortest_found [where p = 60 and ?s1.0 = 7237005577332262])
    show "7237005577332262213973186563042994240829374041602535252466099000494570602496 div 10 ^ 60 = (7237005577332262::nat)"
      by (rule div_eqI) simp_all
  qed (simp_all add: numDigits_10_TARGET roundsTo_TARGET)
  show ?thesis
    by (simp only: e1 e2 e3 e4 e5 e6 e7 e8
        e9 e10 e11 e12 e13 e14 e15 e16)
qed

lemma Number_toString_nat_TARGET: "Number_toString_nat 7237005577332262213973186563042994240829374041602535252466099000494570602496 = ''7.237005577332262e+75''"
  by (simp add: Number_toString_nat_def shortest_TARGET [unfolded One_nat_def] numDigits.simps
      decimal.simps digitChar_def stripZeros_def)

lemma TARGET_toString: "Number_toString TARGET = ''7.237005577332262e+75''"
  by (simp add: Number_toString_def TARGET_def DIFFICULTY_def Number_toString_nat_TARGET)

subsection \<open>What the constructor of big numbers makes of the two strings\<close>

lemma parseDecimal_TARGET:
  "parseDecimal ''7.237005577332262e+75'' = Some (7237005577332262 * 10 ^ 60)"
  by (simp add: parseDecimal_def parseExponent_def isDigit_def digitsValue_def hexDigit_def
      Let_def)

lemma BigNumber_new_TARGET:
  "BigNumber_new env (Number_toString TARGET) = Inr (Finite (7237005577332262 * 10 ^ 60))"
  by (simp only: TARGET_toString BigNumber_new_def parseDecimal_TARGET option.case)

lemma parseDecimal_0x: "parseDecimal (CHR ''0'' # CHR ''x'' # r) = None"
  by (simp add: parseDecimal_def parseExponent_def isDigit_def Let_def)

lemma BigNumber_new_hex:
  assumes "ds \<noteq> []" and "list_all (\<lambda>c. hexDigit c \<noteq> None) ds" and "length ds \<le> 998"
  shows "BigNumber_new env (''0x'' @ ds) = Inr (Finite (of_nat (digitsValue 16 ds)))"
  using assms by (simp add: BigNumber_new_def parseDecimal_0x parseHex_def)

lemma of_nat_le_TARGET:
  "(of_nat n :: rat) \<le> 7237005577332262 * 10 ^ 60 \<longleftrightarrow> n \<le> 7237005577332262 * 10 ^ 60"
proof -
  have "(of_nat n :: rat) \<le> of_nat (7237005577332262 * 10 ^ 60)
          \<longleftrightarrow> n \<le> 7237005577332262 * 10 ^ 60"
    by (rule of_nat_le_iff)
  then show ?thesis
    by (simp only: of_nat_mult of_nat_numeral of_nat_power)
qed

text \<open>On a string of hexadecimal digits the predicate compares the number they denote
  with \<open>7237005577332262 * 10 ^ 60\<close>.\<close>

lemma isPoWValid_hex:
  assumes "ds \<noteq> []" and "list_all (\<lambda>c. hexDigit c \<noteq> None) ds" and "length ds \<le> 998"
    and "take 2 ds \<noteq> ''0x''" and "blockDifficulty b = TARGET"
  shows "isPoWValid env b ds = Inr (digitsValue 16 ds \<le> 7237005577332262 * 10 ^ 60)"
proof -
  have x: "BigNumber_new env (''0x'' @ ds) = Inr (Finite (of_nat (digitsValue 16 ds)))"
    by (rule BigNumber_new_hex [OF assms(1-3)])
  have y: "BigNumber_new env (Number_toString (blockDifficulty b))
             = Inr (Finite (7237005577332262 * 10 ^ 60))"
    by (simp only: assms(5) BigNumber_new_TARGET)
  have "isPoWValid_try env b ds
          = Inr (lessThanOrEqualTo (Finite (of_nat (digitsValue 16 ds)))
                   (Finite (7237005577332262 * 10 ^ 60)))"
    unfolding isPoWValid_try_def Let_def
    by (simp only: assms(4) if_False x y sum.case)
  then show ?thesis
    by (simp only: isPoWValid_def sum.case lessThanOrEqualTo.simps of_nat_le_TARGET)
qed

subsection \<open>The boundary of the predicate\<close>

text \<open>
  Claim C2: \<^verbatim>\<open>isPoWValid\<close> returns true iff the number denoted by the hash is at most
  \<open>2 ^ (256 - DIFFICULTY)\<close>, and accepts a hash equal to that target.

  The code does not: the hash is read exactly, but the target reaches bignumber.js as
  the text of a double, \<^verbatim>\<open>7.237005577332262e+75\<close>, which is less than \<open>2 ^ 252\<close>. The
  hash \<^verbatim>\<open>1000\<dots>0\<close> (a one and 63 zeros), whose value is the target itself, is
  rejected, whatever the libraries do on other strings.
\<close>

theorem isPoWValid_at_TARGET:
  "int (digitsValue 16 ''1000000000000000000000000000000000000000000000000000000000000000'')
     = TARGET
   \<and> isPoWValid env (Block c ts a m n h k v TARGET)
         ''1000000000000000000000000000000000000000000000000000000000000000'' = Inr False"
proof -
  let ?pow = "''1000000000000000000000000000000000000000000000000000000000000000''"
  have v: "digitsValue 16 ?pow = 2 ^ 252"
    by (simp add: digitsValue_def hexDigit_def)
  have "isPoWValid env (Block c ts a m n h k v TARGET) ?pow
          = Inr (digitsValue 16 ?pow \<le> 7237005577332262 * 10 ^ 60)"
    by (rule isPoWValid_hex) (simp_all add: hexDigit_def)
  then show ?thesis
    by (simp add: v TARGET_def DIFFICULTY_def)
qed

text \<open>
  Claim C3, as stated: on malformed input (wrong length or encoding) \<^verbatim>\<open>isPoWValid\<close>
  returns false. It fails for a wrong length: nothing in the method looks at the length,
  and the two-character string \<^verbatim>\<open>ff\<close> is read as the number 255 and accepted.
\<close>

theorem isPoWValid_short_hash_accepted:
  "isPoWValid example_externals (Block BlockClass [] None [] None None 0 True TARGET) ''ff''
     = Inr True"
proof -
  have "isPoWValid example_externals (Block BlockClass [] None [] None None 0 True TARGET) ''ff''
          = Inr (digitsValue 16 ''ff'' \<le> 7237005577332262 * 10 ^ 60)"
    by (rule isPoWValid_hex) (simp_all add: hexDigit_def)
  then show ?thesis
    by (simp add: digitsValue_def hexDigit_def)
qed

text \<open>
  Claim C3, amended: \<^verbatim>\<open>isPoWValid\<close> never raises. For every block and every input
  string it returns a boolean, and it returns false whenever the body of its \<^verbatim>\<open>try\<close>
  throws, that is, whenever bignumber.js rejects the prefixed input.
\<close>

theorem isPoWValid_never_raises:
  "(\<exists>r. isPoWValid env b pow = Inr r)
   \<and> (\<forall>e. isPoWValid_try env b pow = Inl e \<longrightarrow> isPoWValid env b pow = Inr False)"
  by (cases "isPoWValid_try env b pow") (auto simp: isPoWValid_def)

text \<open>Witness for C3: with a constructor that throws on \<^verbatim>\<open>0xzz\<close>, the method
  returns false on \<^verbatim>\<open>zz\<close>.\<close>

theorem isPoWValid_never_raises_witness:
  "isPoWValid_try example_externals (Block BlockClass [] None [] None None 0 True TARGET) ''zz''
     = Inl (LibraryError ''not a number'')
   \<and> isPoWValid example_externals (Block BlockClass [] None [] None None 0 True TARGET) ''zz''
     = Inr False"
proof -
  have h: "isPoWValid_try example_externals
             (Block BlockClass [] None [] None None 0 True TARGET) ''zz''
           = Inl (LibraryError ''not a number'')"
    by (simp add: isPoWValid_try_def BigNumber_new_def parseDecimal_0x parseHex_def hexDigit_def
        example_externals_def)
  with isPoWValid_never_raises
         [of example_externals "Block BlockClass [] None [] None None 0 True TARGET" "''zz''"]
  show ?thesis
    by blast
qed

section \<open>Sums of doubles\<close>

text \<open>Integers up to \<open>2 ^ 53\<close> in magnitude are doubles, and rounding keeps the
  sign.\<close>

lemma toDouble_small [simp]: "\<bar>x\<bar> \<le> 9007199254740992 \<Longrightarrow> toDouble x = x"
  by (simp add: toDouble_def)

lemma numDigits_pos: "0 < numDigits b x"
  by (subst numDigits.simps) simp

lemma numDigits_lower: "2 \<le> b \<Longrightarrow> 0 < x \<Longrightarrow> b ^ (numDigits b x - 1) \<le> x"
proof (induction b x rule: numDigits.induct)
  case (1 b x)
  show ?case
  proof (cases "x < b")
    case True
    then show ?thesis
      using "1.prems" by (subst numDigits.simps) simp
  next
    case False
    with "1.prems" have d: "0 < x div b"
      by (simp add: div_greater_zero_iff)
    have "b ^ (numDigits b (x div b) - 1) \<le> x div b"
      using "1.IH" False "1.prems" d by simp
    then have "b * b ^ (numDigits b (x div b) - 1) \<le> b * (x div b)"
      by simp
    also have "\<dots> \<le> x"
      by simp
    finally have "b ^ numDigits b (x div b) \<le> x"
      using numDigits_pos [of b "x div b"]
      by (cases "numDigits b (x div b)") simp_all
    then show ?thesis
      using False "1.prems" by (subst numDigits.simps) simp
  qed
qed

lemma toDouble_pos: "0 < x \<Longrightarrow> 0 < toDouble x"
proof (cases "\<bar>x\<bar> \<le> 2 ^ 53")
  case True
  assume "0 < x"
  with True show ?thesis by (simp add: toDouble_def)
next
  case False
  assume x: "0 < x"
  define e where "e = numDigits 2 (nat \<bar>x\<bar>) - 53"
  have "(2::nat) ^ (numDigits 2 (nat \<bar>x\<bar>) - 1) \<le> nat \<bar>x\<bar>"
    using x by (intro numDigits_lower) simp_all
  moreover have "(2::nat) ^ e \<le> 2 ^ (numDigits 2 (nat \<bar>x\<bar>) - 1)"
    unfolding e_def by (intro power_increasing) simp_all
  ultimately have "(2::nat) ^ e \<le> nat \<bar>x\<bar>"
    by (rule order_trans [rotated])
  then have "(2::int) ^ e \<le> \<bar>x\<bar>"
    by (metis of_nat_le_iff of_nat_power of_nat_numeral int_nat_eq abs_ge_zero)
  then have q: "0 < \<bar>x\<bar> div 2 ^ e"
    by (simp add: pos_imp_zdiv_pos_iff)
  define q' where "q' = (if 2 ^ e < 2 * (\<bar>x\<bar> mod 2 ^ e)
                            \<or> (2 * (\<bar>x\<bar> mod 2 ^ e) = 2 ^ e \<and> odd (\<bar>x\<bar> div 2 ^ e))
                         then \<bar>x\<bar> div 2 ^ e + 1 else \<bar>x\<bar> div 2 ^ e)"
  have t: "toDouble x = sgn x * (q' * 2 ^ e)"
    using False by (simp only: toDouble_def Let_def e_def q'_def if_False)
  have "0 < q'"
    using q by (simp add: q'_def)
  then have "0 < q' * (2::int) ^ e"
    by simp
  with x show ?thesis
    by (simp add: t)
qed

lemma toDouble_nonneg: "0 \<le> x \<Longrightarrow> 0 \<le> toDouble x"
  using toDouble_pos [of x] by (cases "x = 0") (simp_all add: less_imp_le)

lemma toDouble_rounds: "toDouble 9007199254740993 = 9007199254740992"
proof -
  have "numDigits 2 9007199254740993 = Suc 53"
    by (rule numDigits_eqI) simp_all
  then show ?thesis
    by (simp add: toDouble_def)
qed

section \<open>Evaluation under the example libraries\<close>

lemma isPoWValid_00: "blockDifficulty b = TARGET \<Longrightarrow> isPoWValid env b ''00'' = Inr True"
proof -
  assume d: "blockDifficulty b = TARGET"
  have "isPoWValid env b ''00'' = Inr (digitsValue 16 ''00'' \<le> 7237005577332262 * 10 ^ 60)"
    by (rule isPoWValid_hex) (simp_all add: hexDigit_def d)
  then show ?thesis
    by (simp add: digitsValue_def hexDigit_def)
qed

lemma example_sha256 [simp]:
  "Block_sha256 example_externals b
     = (if cls b = BlockClass \<and> ancestor b = None then Inl TypeError else Inr ''00'')"
  by (auto simp: Block_sha256_def Block_toJson_def example_externals_def
      split: BlockClass.splits option.splits)

lemma set_nonce_sel [simp]:
  "cls (set_nonce n b) = cls b" "ancestor (set_nonce n b) = ancestor b"
  "blockDifficulty (set_nonce n b) = blockDifficulty b"
  by (cases b; simp)+

lemma example_genesis_sel [simp]:
  "cls example_genesis = GenesisBlockClass" "ancestor example_genesis = None"
  "hash example_genesis = Some ''00''" "blockNumber example_genesis = 0"
  "blockDifficulty example_genesis = TARGET"
  "transactions example_genesis = [GenesisTransaction SATOSHI_NAKAMOTO MINING_REWARD]"
  by (simp_all add: example_genesis_def)

lemma example_block_sel [simp]:
  "cls example_block = BlockClass" "ancestor example_block = Some example_genesis"
  "hash example_block = Some ''00''" "blockNumber example_block = 1"
  "blockDifficulty example_block = TARGET"
  "transactions example_block = [GenesisTransaction ''alice'' MINING_REWARD]"
  by (simp_all add: example_block_def)

lemma mine_example:
  assumes "blockDifficulty b = TARGET" and "cls b = GenesisBlockClass \<or> ancestor b \<noteq> None"
  shows "mine example_externals b = Some (Inr (set_hash (Some ''00'') (set_nonce (Some 0) b)))"
proof -
  have 1: "Block_sha256 example_externals (set_nonce (Some 0) b) = Inr ''00''"
    using assms(2) by auto
  have 2: "isPoWValid example_externals (set_nonce (Some 0) b) ''00'' = Inr True"
    using assms(1) by (simp add: isPoWValid_00)
  show ?thesis
    unfolding mine_def using assms(2) by (subst mine_loop.simps) (auto simp: 2)
qed



section \<open>Chain validation\<close>

lemma all_from_split:
  "i < n \<Longrightarrow> (\<forall>j. i \<le> j \<and> j < n \<longrightarrow> Q j) \<longleftrightarrow> Q i \<and> (\<forall>j. i + 1 \<le> j \<and> j < (n::nat) \<longrightarrow> Q j)"
proof (intro iffI conjI allI impI)
  fix j
  assume "Q i \<and> (\<forall>j. i + 1 \<le> j \<and> j < n \<longrightarrow> Q j)" and "i \<le> j \<and> j < n"
  then show "Q j"
    by (cases "j = i") auto
qed auto

lemma verify_from_iff:
  "verify_from env bs i = Inr True \<longleftrightarrow>
     (\<forall>j. i \<le> j \<and> j < length bs \<longrightarrow>
        blockNumber (bs ! j) = int j \<and>
        (\<exists>a h. ancestor (bs ! j) = Some a \<and> Block_sha256 env (bs ! (j - 1)) = Inr h
               \<and> hash a = Some h) \<and>
        (\<exists>pow. Block_sha256 env (bs ! j) = Inr pow
               \<and> isPoWValid env (bs ! j) pow = Inr True))"
  (is "_ \<longleftrightarrow> (\<forall>j. i \<le> j \<and> j < length bs \<longrightarrow> ?P j)")
proof (induction "length bs - i" arbitrary: i)
  case 0
  then have "\<not> i < length bs" by simp
  then show ?case
    by (subst verify_from.simps) auto
next
  case (Suc n)
  then have lt: "i < length bs" by simp
  from Suc have IH: "verify_from env bs (i + 1) = Inr True \<longleftrightarrow>
     (\<forall>j. i + 1 \<le> j \<and> j < length bs \<longrightarrow> ?P j)"
    by simp
  have split: "(\<forall>j. i \<le> j \<and> j < length bs \<longrightarrow> ?P j) \<longleftrightarrow>
     ?P i \<and> (\<forall>j. i + 1 \<le> j \<and> j < length bs \<longrightarrow> ?P j)"
    using lt by (rule all_from_split)
  have step: "verify_from env bs i = Inr True \<longleftrightarrow> ?P i \<and> verify_from env bs (i + 1) = Inr True"
    using lt by (subst verify_from.simps)
      (auto simp: Let_def split: option.splits sum.splits)
  show ?case
    unfolding split step IH ..
qed

text \<open>
  Claim C1: \<^verbatim>\<open>Blockchain.verify\<close> returns false for an empty sequence, returns false
  if the first block is not structurally equal to the Genesis Block, and returns false
  if at some index \<open>i\<close> from 1 on the block number is not \<open>i\<close>, or the hash stored for
  the ancestor differs from the hash of the block before, or the proof-of-work
  predicate fails on the hash of the block; it returns true only when every check
  passes. Here it is an equivalence: an error thrown while a hash is computed (a block
  without ancestor) also makes the result false, and shows as a hash that does not
  exist.
\<close>

theorem Blockchain_verify_iff:
  "Blockchain_verify env G bs \<longleftrightarrow>
     bs \<noteq> [] \<and> deepEqual (bs ! 0) G \<and>
     (\<forall>i. 1 \<le> i \<and> i < length bs \<longrightarrow>
        blockNumber (bs ! i) = int i \<and>
        (\<exists>a h. ancestor (bs ! i) = Some a \<and> Block_sha256 env (bs ! (i - 1)) = Inr h
               \<and> hash a = Some h) \<and>
        (\<exists>pow. Block_sha256 env (bs ! i) = Inr pow
               \<and> isPoWValid env (bs ! i) pow = Inr True))"
proof -
  have never_False: "verify_from env bs i \<noteq> Inr False" for i
  proof (induction "length bs - i" arbitrary: i)
    case 0
    then show ?case by (subst verify_from.simps) auto
  next
    case (Suc n)
    then have "verify_from env bs (i + 1) \<noteq> Inr False" by simp
    then show ?case
      by (subst verify_from.simps) (auto simp: Let_def split: option.splits sum.splits)
  qed
  have "Blockchain_verify env G bs \<longleftrightarrow>
          bs \<noteq> [] \<and> deepEqual (bs ! 0) G \<and> verify_from env bs 1 = Inr True"
    using never_False [of 1]
    by (cases "verify_from env bs 1") (auto simp: Blockchain_verify_def verify_try_def)
  then show ?thesis
    by (simp only: verify_from_iff)
qed

lemma deepEqual_refl [simp]: "deepEqual b b"
  by (induction b) (auto split: option.splits)

lemma example_chain_valid:
  "Blockchain_verify example_externals example_genesis [example_genesis, example_block]"
proof -
  have 2: "verify_from example_externals [example_genesis, example_block] (Suc (Suc 0))
             = Inr True"
    by (subst verify_from.simps) simp
  have 1: "verify_from example_externals [example_genesis, example_block] (Suc 0) = Inr True"
    by (subst verify_from.simps)
       (simp add: 2 isPoWValid_00 Let_def)
  show ?thesis
    by (simp add: Blockchain_verify_def verify_try_def 1)
qed

text \<open>Witness for C1: the Genesis Block followed by the block mined on it is a valid
  chain, and index 1 is in the range of the checks.\<close>

theorem Blockchain_verify_iff_witness:
  "Blockchain_verify example_externals example_genesis [example_genesis, example_block]
   \<and> (1::nat) \<le> 1 \<and> 1 < length [example_genesis, example_block]
   \<and> blockNumber ([example_genesis, example_block] ! 1) = int 1"
proof -
  from example_chain_valid
  have "\<forall>i. 1 \<le> i \<and> i < length [example_genesis, example_block] \<longrightarrow>
          blockNumber ([example_genesis, example_block] ! i) = int i"
    using Blockchain_verify_iff [of example_externals example_genesis
             "[example_genesis, example_block]"]
    by blast
  then have "blockNumber ([example_genesis, example_block] ! 1) = int 1"
    by (elim allE [of _ 1]) simp
  then show ?thesis
    using example_chain_valid by simp
qed

text \<open>
  Claim C9: a node created on empty storage (neither file exists) is created without
  error; its chain is the Genesis Block alone, so that \<^verbatim>\<open>chain[0]\<close> deep-equals the
  Genesis Block, and its pool is empty.
\<close>

theorem Blockchain_new_empty_storage:
  "Blockchain_new env G Absent Absent
     = Inr \<lparr>blocks = [G], transactionPool = [], chainFile = Absent, poolFile = Absent\<rparr>
   \<and> deepEqual ([G] ! 0) G"
proof -
  have "verify_from env [G] 1 = Inr True"
    by (subst verify_from.simps) simp
  then show ?thesis
    by (simp add: Blockchain_new_def load_def verify_def Blockchain_verify_def verify_try_def
        initTransactionPool_def)
qed

section \<open>Consensus\<close>

lemma Blockchain_verify_Nil [simp]: "\<not> Blockchain_verify env G []"
  by (simp add: Blockchain_verify_def verify_try_def)

lemma consensus_loop_inv:
  "best_upto env G cs i m b \<Longrightarrow> i \<le> length cs \<Longrightarrow>
   consensus_loop env G cs i m b = (m', b') \<Longrightarrow> best_upto env G cs (length cs) m' b'"
proof (induction "length cs - i" arbitrary: i m b)
  case 0
  then show ?case
    by (subst (asm) consensus_loop.simps) simp
next
  case (Suc n)
  then have lt: "i < length cs" by simp
  have n: "n = length cs - (i + 1)" using Suc(2) by simp
  have le: "i + 1 \<le> length cs" using lt by simp
  show ?case
  proof (cases "length (cs ! i) \<le> m")
    case True
    have "best_upto env G cs (i + 1) m b"
      using Suc.prems(1) True
      by (auto simp: best_upto_def less_Suc_eq)
    moreover have "consensus_loop env G cs (i + 1) m b = (m', b')"
      using Suc.prems(3) lt True by (subst (asm) consensus_loop.simps) (simp add: Let_def)
    ultimately show ?thesis
      using Suc.hyps(1) [OF n _ le] by blast
  next
    case False
    show ?thesis
    proof (cases "Blockchain_verify env G (cs ! i)")
      case True
      have "best_upto env G cs (i + 1) (length (cs ! i)) (int i)"
        using Suc.prems(1) True False
        by (auto simp: best_upto_def less_Suc_eq)
      moreover have "consensus_loop env G cs (i + 1) (length (cs ! i)) (int i) = (m', b')"
        using Suc.prems(3) lt True False
        by (subst (asm) consensus_loop.simps) (simp add: Let_def)
      ultimately show ?thesis
        using Suc.hyps(1) [OF n _ le] by blast
    next
      case nv: False
      have "best_upto env G cs (i + 1) m b"
        using Suc.prems(1) nv
        by (auto simp: best_upto_def less_Suc_eq)
      moreover have "consensus_loop env G cs (i + 1) m b = (m', b')"
        using Suc.prems(3) lt False nv
        by (subst (asm) consensus_loop.simps) (simp add: Let_def)
      ultimately show ?thesis
        using Suc.hyps(1) [OF n _ le] by blast
    qed
  qed
qed

lemma consensus_loop_best:
  assumes "consensus_loop env G cs 0 0 (- 1) = (m, b)"
  shows "(b = - 1 \<and> (\<forall>c\<in>set cs. \<not> Blockchain_verify env G c))
         \<or> (0 \<le> b \<and> nat b < length cs \<and> Blockchain_verify env G (cs ! nat b)
            \<and> length (cs ! nat b) = m
            \<and> (\<forall>c\<in>set cs. Blockchain_verify env G c \<longrightarrow> length c \<le> m))"
proof -
  have "best_upto env G cs 0 0 (- 1)"
    by (simp add: best_upto_def)
  from consensus_loop_inv [OF this _ assms]
  have "best_upto env G cs (length cs) m b" by simp
  then show ?thesis
    unfolding best_upto_def by (auto simp: in_set_conv_nth)
qed

lemma verify_from_single: "verify_from env [G] (Suc 0) = Inr True"
  by (subst verify_from.simps) simp

lemma Blockchain_verify_single [simp]: "Blockchain_verify env G [G]"
  by (simp add: Blockchain_verify_def verify_try_def verify_from_single)

lemma not_deepEqual_example: "\<not> deepEqual example_block example_genesis"
  by (simp add: example_block_def example_genesis_def GenesisTransaction_def SATOSHI_NAKAMOTO_def)

text \<open>
  Claim C5, as stated, says that a valid candidate of the same length as the local
  chain is never adopted. It is adopted when the local chain is itself invalid: a node
  whose one-block chain is not the Genesis Block takes the one-block chain of the
  Genesis Block.
\<close>

theorem consensus_tie_adopted:
  "consensus example_externals example_genesis (example_fresh\<lparr>blocks := [example_block]\<rparr>)
     [[example_genesis]]
     = (True, \<lparr>blocks = [example_genesis], transactionPool = [],
               chainFile = Stored [example_genesis], poolFile = Absent\<rparr>)
   \<and> Blockchain_verify example_externals example_genesis [example_genesis]
   \<and> length [example_genesis] = length [example_block]"
proof -
  have 1: "consensus_loop example_externals example_genesis [[example_genesis]] (Suc 0) (Suc 0) 0
             = (Suc 0, 0)"
    by (subst consensus_loop.simps) simp
  have 0: "consensus_loop example_externals example_genesis [[example_genesis]] 0 0 (- 1)
             = (Suc 0, 0)"
    by (subst consensus_loop.simps) (simp add: 1)
  have "\<not> Blockchain_verify example_externals example_genesis [example_block]"
    by (simp add: Blockchain_verify_def verify_try_def not_deepEqual_example)
  then show ?thesis
    by (simp add: consensus_def 0 example_fresh_def save_def)
qed

text \<open>
  Claim C5, amended: \<^verbatim>\<open>consensus\<close> adopts iff some candidate is valid and either a
  valid candidate is strictly longer than the local chain or the local chain fails
  validation. What it adopts is a valid candidate that no valid candidate exceeds in
  length; the new chain is saved and nothing else changes. Without adoption the state
  is untouched. The result is whether adoption occurred. When the local chain is valid
  and no valid candidate is longer (a tie included), nothing is adopted.
\<close>

theorem consensus_adopts:
  assumes "consensus env G this cs = (adopted, this')"
  shows "(adopted \<longleftrightarrow>
            (\<exists>c\<in>set cs. Blockchain_verify env G c) \<and>
            ((\<exists>c\<in>set cs. Blockchain_verify env G c \<and> length (blocks this) < length c)
             \<or> \<not> Blockchain_verify env G (blocks this)))
         \<and> (adopted \<longrightarrow>
               blocks this' \<in> set cs \<and> Blockchain_verify env G (blocks this')
               \<and> (\<forall>c\<in>set cs. Blockchain_verify env G c \<longrightarrow> length c \<le> length (blocks this'))
               \<and> this' = this\<lparr>blocks := blocks this', chainFile := Stored (blocks this')\<rparr>)
         \<and> (\<not> adopted \<longrightarrow> this' = this)
         \<and> (Blockchain_verify env G (blocks this)
              \<and> (\<forall>c\<in>set cs. Blockchain_verify env G c \<longrightarrow> length c \<le> length (blocks this))
              \<longrightarrow> \<not> adopted \<and> this' = this)"
proof -
  obtain m b where loop: "consensus_loop env G cs 0 0 (- 1) = (m, b)"
    by (cases "consensus_loop env G cs 0 0 (- 1)")
  note best = consensus_loop_best [OF loop]
  show ?thesis
  proof (cases "b = - 1")
    case True
    with best have none: "\<forall>c\<in>set cs. \<not> Blockchain_verify env G c" by auto
    from assms loop True have "\<not> adopted" "this' = this"
      by (auto simp: consensus_def)
    with none show ?thesis by auto
  next
    case False
    with best have b: "0 \<le> b" "nat b < length cs" "Blockchain_verify env G (cs ! nat b)"
      "length (cs ! nat b) = m" "\<forall>c\<in>set cs. Blockchain_verify env G c \<longrightarrow> length c \<le> m"
      by auto
    have mem: "cs ! nat b \<in> set cs" using b(2) by simp
    show ?thesis
    proof (cases "m > length (blocks this) \<or> \<not> Blockchain_verify env G (blocks this)")
      case True
      with assms loop False have r: "adopted" "this' = save (this\<lparr>blocks := cs ! nat b\<rparr>)"
        by (auto simp: consensus_def)
      have "blocks this' = cs ! nat b" by (simp add: r save_def)
      with r b mem True show ?thesis
        by (auto simp: save_def)
    next
      case nt: False
      with assms loop False have r: "\<not> adopted" "this' = this"
        by (auto simp: consensus_def)
      with nt b show ?thesis by fastforce
    qed
  qed
qed

text \<open>Witness for C5: the fresh node adopts the valid two-block chain; the node that
  already has these two blocks does not.\<close>

theorem consensus_adopts_witness:
  "consensus example_externals example_genesis example_fresh [[example_genesis, example_block]]
     = (True, example_fresh\<lparr>blocks := [example_genesis, example_block],
                            chainFile := Stored [example_genesis, example_block]\<rparr>)
   \<and> Blockchain_verify example_externals example_genesis [example_genesis, example_block]
   \<and> consensus example_externals example_genesis example_mined
        [[example_genesis, example_block]] = (False, example_mined)"
proof -
  let ?cs = "[[example_genesis, example_block]]"
  have 1: "consensus_loop example_externals example_genesis ?cs (Suc 0) (Suc (Suc 0)) 0 = (2, 0)"
    by (subst consensus_loop.simps) simp
  have 0: "consensus_loop example_externals example_genesis ?cs 0 0 (- 1) = (2, 0)"
    by (subst consensus_loop.simps) (simp add: 1 example_chain_valid)
  have a: "consensus example_externals example_genesis example_fresh ?cs
             = (True, example_fresh\<lparr>blocks := [example_genesis, example_block],
                            chainFile := Stored [example_genesis, example_block]\<rparr>)"
    by (simp add: consensus_def 0 example_fresh_def save_def)
  have b: "consensus example_externals example_genesis example_mined ?cs = (False, example_mined)"
    by (simp add: consensus_def 0 example_mined_def example_chain_valid)
  from consensus_adopts [OF a]
  have "Blockchain_verify example_externals example_genesis [example_genesis, example_block]"
    by (simp add: example_fresh_def)
  moreover from consensus_adopts [OF b] have "example_mined = example_mined"
    by simp
  ultimately show ?thesis
    using a b by simp
qed

section \<open>Mining a block\<close>

lemma every_True_iff: "every p xs = Inr True \<longleftrightarrow> (\<forall>x\<in>set xs. p x = Inr True)"
  by (induction xs) (auto split: sum.splits)

lemma set_validTransaction_sel [simp]:
  "validTransaction (set_validTransaction v b) = v"
  "cls (set_validTransaction v b) = cls b" "ancestor (set_validTransaction v b) = ancestor b"
  "blockDifficulty (set_validTransaction v b) = blockDifficulty b"
  by (cases b; simp)+

lemma createBlock_rejects:
  assumes "\<exists>t\<in>set (transactionPool this). Transaction_verify env t \<noteq> Inr True"
  shows "\<exists>e. createBlock env this miner = Some (Inl e, this)"
proof -
  from assms have ne: "every (Transaction_verify env) (transactionPool this) \<noteq> Inr True"
    by (simp add: every_True_iff)
  show ?thesis
  proof (cases "every (Transaction_verify env) (transactionPool this)")
    case (Inl e)
    then show ?thesis
      by (simp add: createBlock_def Block_new_def)
  next
    case (Inr ok)
    with ne have "\<not> ok" by simp
    with Inr show ?thesis
      by (simp add: createBlock_def Block_new_def)
  qed
qed

lemma mine_loop_finds:
  assumes "n \<le> n0"
    and "Block_sha256 env (set_nonce (Some n0) b) = Inr pow"
    and "isPoWValid env (set_nonce (Some n0) b) pow = Inr True"
    and "\<forall>k p. n \<le> k \<and> k < n0 \<and> Block_sha256 env (set_nonce (Some k) b) = Inr p
           \<longrightarrow> isPoWValid env (set_nonce (Some k) b) p = Inr False"
    and "\<forall>k. \<exists>p. Block_sha256 env (set_nonce (Some k) b) = Inr p"
  shows "mine_loop env b n = Some (Inr (set_hash (Some pow) (set_nonce (Some n0) b)))"
  using assms(1,4)
proof (induction "nat (n0 - n)" arbitrary: n)
  case 0
  then have "n = n0" by simp
  then show ?case
    by (subst mine_loop.simps) (simp add: assms(2,3))
next
  case (Suc d)
  then have lt: "n < n0" by linarith
  obtain p where p: "Block_sha256 env (set_nonce (Some n) b) = Inr p"
    using assms(5) by blast
  with Suc.prems(2) lt have f: "isPoWValid env (set_nonce (Some n) b) p = Inr False"
    by simp
  have "mine_loop env b (n + 1) = Some (Inr (set_hash (Some pow) (set_nonce (Some n0) b)))"
  proof (rule Suc.hyps(1))
    show "d = nat (n0 - (n + 1))" using Suc.hyps(2) by linarith
    show "n + 1 \<le> n0" using lt by simp
    show "\<forall>k p. n + 1 \<le> k \<and> k < n0 \<and> Block_sha256 env (set_nonce (Some k) b) = Inr p
           \<longrightarrow> isPoWValid env (set_nonce (Some k) b) p = Inr False"
      using Suc.prems(2) by simp
  qed
  then show ?case
    by (subst mine_loop.simps) (simp add: p f)
qed

lemma Block_sha256_linked:
  "cls b = BlockClass \<Longrightarrow> ancestor b = Some a \<Longrightarrow> \<exists>p. Block_sha256 env b = Inr p"
  by (simp add: Block_sha256_def Block_toJson_def)

lemma createBlock_seals:
  assumes ok: "\<forall>t\<in>set (transactionPool this). Transaction_verify env t = Inr True"
    and ne: "blocks this \<noteq> []"
    and b0: "b0 = Block BlockClass (GenesisTransaction miner MINING_REWARD # transactionPool this)
                (Some (last (blocks this))) miner None None
                (blockNumber (last (blocks this)) + 1) True TARGET"
    and n0: "0 \<le> n0"
    and sha: "Block_sha256 env (set_nonce (Some n0) b0) = Inr pow"
    and pow: "isPoWValid env (set_nonce (Some n0) b0) pow = Inr True"
    and fail: "\<forall>k p. 0 \<le> k \<and> k < n0 \<and> Block_sha256 env (set_nonce (Some k) b0) = Inr p
                 \<longrightarrow> isPoWValid env (set_nonce (Some k) b0) p = Inr False"
    and b: "b = set_hash (Some pow) (set_nonce (Some n0) b0)"
  shows "createBlock env this miner
           = Some (Inr b, this\<lparr>blocks := blocks this @ [b], transactionPool := [],
                              poolFile := Stored [], chainFile := Stored (blocks this @ [b])\<rparr>)"
proof -
  have ev: "every (Transaction_verify env) (transactionPool this) = Inr True"
    using ok by (simp add: every_True_iff)
  have all: "\<forall>k. \<exists>p. Block_sha256 env (set_nonce (Some k) b0) = Inr p"
    by (simp add: b0 Block_sha256_def Block_toJson_def)
  have "mine env b0 = Some (Inr b)"
    unfolding mine_def b by (rule mine_loop_finds [OF n0 sha pow fail all])
  moreover have "validTransaction b"
    by (simp add: b b0)
  ultimately show ?thesis
    using ne ev by (simp add: createBlock_def Block_new_def getLastBlock_def b0 [symmetric]
        save_def clearTransactionPool_def)
qed

lemma parentOutput_reward [simp]:
  "parentOutput (TransactionInput (GenesisTransaction a r) 0)
     = Some \<lparr>recipientAddress = a, amount = r\<rparr>"
  by (simp add: parentOutput_def GenesisTransaction_def)

lemma verify_selfpay: "Transaction_verify example_externals example_selfpay = Inr True"
  by (simp add: Transaction_verify_def example_selfpay_def sameWalletCheck_def addInput_def
      totalOut_def verifySignature_def example_externals_def example_alice_def MINING_REWARD_def)

lemma verify_forged: "Transaction_verify example_externals example_forged = Inr False"
  by (simp add: Transaction_verify_def example_forged_def sameWalletCheck_def addInput_def
      totalOut_def verifySignature_def example_externals_def example_alice_def MINING_REWARD_def)

lemma createBlock_example2:
  "createBlock example_externals example_pending ''bob'' = Some (Inr example_block2, example_mined2)"
  by (simp add: createBlock_def Block_new_def getLastBlock_def example_pending_def mine_example
      verify_selfpay example_block2_def example_mined2_def save_def clearTransactionPool_def)

text \<open>
  Claim C6: when some transaction of the pool fails verification, \<^verbatim>\<open>createBlock\<close>
  raises an error and leaves the chain and the pool as they were; when all of them
  verify, the sealed block is appended to the chain, the pool is cleared, both are
  saved, and the block is returned.

  A transaction fails when \<^verbatim>\<open>Transaction.verify\<close> returns false or throws. The search
  for a nonce has no bound, so the second half is stated for a puzzle that has a
  solution: with \<open>n0\<close> the least nonce whose hash passes the predicate, mining ends
  and seals the block with \<open>n0\<close> and that hash. \<open>b0\<close> is the block as the constructor
  has assembled it before mining.
\<close>

theorem createBlock_spec:
  "((\<exists>t\<in>set (transactionPool this). Transaction_verify env t \<noteq> Inr True)
      \<longrightarrow> (\<exists>e. createBlock env this miner = Some (Inl e, this)))
   \<and> ((\<forall>t\<in>set (transactionPool this). Transaction_verify env t = Inr True)
       \<and> blocks this \<noteq> []
       \<and> b0 = Block BlockClass (GenesisTransaction miner MINING_REWARD # transactionPool this)
                (Some (last (blocks this))) miner None None
                (blockNumber (last (blocks this)) + 1) True TARGET
       \<and> 0 \<le> n0
       \<and> Block_sha256 env (set_nonce (Some n0) b0) = Inr pow
       \<and> isPoWValid env (set_nonce (Some n0) b0) pow = Inr True
       \<and> (\<forall>k p. 0 \<le> k \<and> k < n0 \<and> Block_sha256 env (set_nonce (Some k) b0) = Inr p
              \<longrightarrow> isPoWValid env (set_nonce (Some k) b0) p = Inr False)
      \<longrightarrow> createBlock env this miner
            = Some (Inr (set_hash (Some pow) (set_nonce (Some n0) b0)),
                    this\<lparr>blocks := blocks this @ [set_hash (Some pow) (set_nonce (Some n0) b0)],
                         transactionPool := [], poolFile := Stored [],
                         chainFile :=
                           Stored (blocks this @ [set_hash (Some pow) (set_nonce (Some n0) b0)])\<rparr>))"
proof (intro conjI impI)
  assume "\<exists>t\<in>set (transactionPool this). Transaction_verify env t \<noteq> Inr True"
  then show "\<exists>e. createBlock env this miner = Some (Inl e, this)"
    by (rule createBlock_rejects)
next
  assume h: "(\<forall>t\<in>set (transactionPool this). Transaction_verify env t = Inr True)
       \<and> blocks this \<noteq> []
       \<and> b0 = Block BlockClass (GenesisTransaction miner MINING_REWARD # transactionPool this)
                (Some (last (blocks this))) miner None None
                (blockNumber (last (blocks this)) + 1) True TARGET
       \<and> 0 \<le> n0
       \<and> Block_sha256 env (set_nonce (Some n0) b0) = Inr pow
       \<and> isPoWValid env (set_nonce (Some n0) b0) pow = Inr True
       \<and> (\<forall>k p. 0 \<le> k \<and> k < n0 \<and> Block_sha256 env (set_nonce (Some k) b0) = Inr p
              \<longrightarrow> isPoWValid env (set_nonce (Some k) b0) p = Inr False)"
  show "createBlock env this miner
            = Some (Inr (set_hash (Some pow) (set_nonce (Some n0) b0)),
                    this\<lparr>blocks := blocks this @ [set_hash (Some pow) (set_nonce (Some n0) b0)],
                         transactionPool := [], poolFile := Stored [],
                         chainFile :=
                           Stored (blocks this @ [set_hash (Some pow) (set_nonce (Some n0) b0)])\<rparr>)"
    by (rule createBlock_seals [where ?n0.0 = n0 and ?b0.0 = b0 and pow = pow])
       (use h in blast)+
qed

text \<open>Witness for C6: the pool with a forged signature is rejected and nothing
  changes; the pool with a properly signed transaction is mined into the third
  block.\<close>

theorem createBlock_spec_witness:
  "Transaction_verify example_externals example_forged \<noteq> Inr True
   \<and> (\<exists>e. createBlock example_externals example_forging ''bob'' = Some (Inl e, example_forging))
   \<and> Transaction_verify example_externals example_selfpay = Inr True
   \<and> createBlock example_externals example_pending ''bob''
       = Some (Inr example_block2, example_mined2)"
proof -
  let ?b0 = "Block BlockClass
               (GenesisTransaction ''bob'' MINING_REWARD # transactionPool example_pending)
               (Some (last (blocks example_pending))) ''bob'' None None
               (blockNumber (last (blocks example_pending)) + 1) True TARGET"
  have bad: "\<exists>t\<in>set (transactionPool example_forging).
               Transaction_verify example_externals t \<noteq> Inr True"
    by (simp add: example_forging_def verify_forged)
  have 1: "\<exists>e. createBlock example_externals example_forging ''bob''
                 = Some (Inl e, example_forging)"
    using createBlock_spec [where this = example_forging and env = example_externals
        and miner = "''bob''"] bad
    by blast
  have good: "\<forall>t\<in>set (transactionPool example_pending).
                Transaction_verify example_externals t = Inr True"
    by (simp add: example_pending_def verify_selfpay)
  have ne: "blocks example_pending \<noteq> []"
    by (simp add: example_pending_def)
  have sha: "Block_sha256 example_externals (set_nonce (Some 0) ?b0) = Inr ''00''"
    by simp
  have pow: "isPoWValid example_externals (set_nonce (Some 0) ?b0) ''00'' = Inr True"
    by (simp add: isPoWValid_00)
  have none: "\<forall>k p. 0 \<le> k \<and> k < 0
                 \<and> Block_sha256 example_externals (set_nonce (Some k) ?b0) = Inr p
                \<longrightarrow> isPoWValid example_externals (set_nonce (Some k) ?b0) p = Inr False"
    by (intro allI impI) linarith
  have "createBlock example_externals example_pending ''bob''
          = Some (Inr (set_hash (Some ''00'') (set_nonce (Some 0) ?b0)),
                  example_pending\<lparr>blocks := blocks example_pending
                                               @ [set_hash (Some ''00'') (set_nonce (Some 0) ?b0)],
                       transactionPool := [], poolFile := Stored [],
                       chainFile := Stored (blocks example_pending
                                     @ [set_hash (Some ''00'') (set_nonce (Some 0) ?b0)])\<rparr>)"
    by (rule createBlock_spec [where this = example_pending and env = example_externals
          and miner = "''bob''" and ?b0.0 = ?b0 and ?n0.0 = 0 and pow = "''00''",
          THEN conjunct2, THEN mp])
       (intro conjI good ne sha pow none refl order_refl)
  then have 2: "createBlock example_externals example_pending ''bob''
                  = Some (Inr example_block2, example_mined2)"
    by (simp add: example_pending_def example_block2_def example_mined2_def)
  show ?thesis
    using 1 2 by (simp add: verify_forged verify_selfpay)
qed

section \<open>Verification of transactions\<close>

lemma findIndex_none: "(\<forall>x\<in>set xs. \<not> p x) \<Longrightarrow> findIndex p xs = - 1"
  by (induction xs) (auto simp: Let_def)

lemma gatherInputs_none:
  assumes "\<forall>tx\<in>set (concat (map transactions (blocks this))).
             \<forall>out\<in>set (outputs tx). recipientAddress out \<noteq> sender"
  shows "gatherInputs this sender = []"
proof -
  have "findIndex (\<lambda>txout. recipientAddress txout = sender) (outputs tx) = - 1"
    if "tx \<in> set (concat (map transactions (blocks this)))" for tx
    using that assms by (intro findIndex_none) blast
  then show ?thesis
    unfolding gatherInputs_def by (simp add: Let_def)
qed

lemma verify_no_inputs:
  assumes "wallet t = Some w" and "inputs t = []" and "0 < totalOut t"
  shows "Transaction_verify env t
           = (case verifySignature env (address w) (Transaction_toJson env t) (signature t) of
                Inl e \<Rightarrow> Inl e
              | Inr valid \<Rightarrow> Inr False)"
  using assms by (simp add: Transaction_verify_def split: sum.splits)

lemma submit_no_outputs:
  assumes none: "\<forall>tx\<in>set (concat (map transactions (blocks this))).
                   \<forall>out\<in>set (outputs tx). recipientAddress out \<noteq> address w"
    and val: "0 < val"
    and sub: "submitTransaction env this w recipient val = (Inr (), this')"
  shows "\<exists>tx. this' = addToTransactionPool this tx \<and> wallet tx = Some w \<and> inputs tx = []
              \<and> 0 < totalOut tx"
proof -
  have g: "gatherInputs this (address w) = []"
    using none by (rule gatherInputs_none)
  from sub obtain bal where bal: "computeBalance this (address w) = Inr bal"
    by (cases "computeBalance this (address w)") (auto simp: submitTransaction_def Let_def)
  let ?outs = "[\<lparr>recipientAddress = recipient, amount = val\<rparr>,
                \<lparr>recipientAddress = address w, amount = \<bar>toDouble (bal - val)\<bar>\<rparr>]"
  from sub bal g obtain tx where tx: "Transaction_new env (Some w) [] ?outs = Inr tx"
    and t': "this' = addToTransactionPool this tx"
    by (cases "Transaction_new env (Some w) [] ?outs")
       (auto simp: submitTransaction_def Let_def)
  from tx have f: "wallet tx = Some w" "inputs tx = []" "outputs tx = ?outs"
    by (auto simp: Transaction_new_def split: sum.splits)
  have "0 < toDouble val"
    using val by (rule toDouble_pos)
  then have "0 < \<bar>toDouble (bal - val)\<bar> + toDouble val"
    by simp
  then have "0 < toDouble (\<bar>toDouble (bal - val)\<bar> + toDouble val)"
    by (rule toDouble_pos)
  then have "0 < totalOut tx"
    by (simp add: totalOut_def f)
  with t' f show ?thesis
    by blast
qed

lemma submit_unfunded:
  "submitTransaction example_externals example_fresh example_alice ''bob'' 5
     = (Inr (), example_fresh\<lparr>transactionPool := [example_unfunded],
                              poolFile := Stored [example_unfunded]\<rparr>)"
  by (simp add: submitTransaction_def gatherInputs_def computeBalance_def example_fresh_def
      balanceTransaction_def balanceOutput_def GenesisTransaction_def example_alice_def
      SATOSHI_NAKAMOTO_def Transaction_new_def Wallet_sign_def example_externals_def
      addToTransactionPool_def example_unfunded_def Let_def)

lemma verify_example_theft: "Transaction_verify example_externals example_theft = Inr True"
  by (simp add: Transaction_verify_def example_theft_def sameWalletCheck_def addInput_def
      totalOut_def verifySignature_def example_externals_def example_mallory_def MINING_REWARD_def)

lemma createBlock_example3:
  "createBlock example_externals example_stealing ''bob''
     = Some (Inr example_block3, example_robbed)"
  by (simp add: createBlock_def Block_new_def getLastBlock_def example_stealing_def mine_example
      verify_example_theft example_block3_def example_robbed_def save_def
      clearTransactionPool_def)

text \<open>
  Claim C10, as stated, says that \<^verbatim>\<open>Transaction.verify\<close> returns false for every
  transaction with a signer, no inputs and a positive total of outputs, and that hence
  a sender with no prior outputs on the chain can never have a positive-value
  transaction accepted at mining time. Neither holds for every input.
  \<^verbatim>\<open>Transaction.verify\<close> calls \<^verbatim>\<open>verifySignature\<close> before it compares the sums, and
  throws what the library throws on a key it cannot read: with such a library the
  transaction without inputs of \<^verbatim>\<open>alice\<close> makes it throw. And a sender without
  outputs is not bound to a transaction without inputs: no output of the chain is
  addressed to \<^verbatim>\<open>mallory\<close>, whose balance is 0; the transaction that she signs and
  that spends the reward of \<^verbatim>\<open>alice\<close> is mined by \<^verbatim>\<open>bob\<close>, and she ends with 25.
\<close>

theorem unfunded_not_always_rejected:
  "wallet example_unfunded = Some example_alice \<and> inputs example_unfunded = []
   \<and> 0 < totalOut example_unfunded
   \<and> Transaction_verify example_badkeys example_unfunded = Inl (LibraryError ''invalid key'')
   \<and> gatherInputs example_stealing ''mallory'' = []
   \<and> computeBalance example_stealing ''mallory'' = Inr 0
   \<and> wallet example_theft = Some example_mallory
   \<and> address example_mallory = ''mallory''
   \<and> 0 < totalOut example_theft
   \<and> transactionPool example_stealing = [example_theft]
   \<and> createBlock example_externals example_stealing ''bob''
       = Some (Inr example_block3, example_robbed)
   \<and> computeBalance example_robbed ''mallory'' = Inr 25"
  by (simp add: createBlock_example3)
     (simp add: example_unfunded_def totalOut_def Transaction_verify_def verifySignature_def
        example_badkeys_def example_alice_def gatherInputs_def computeBalance_def
        example_stealing_def example_robbed_def example_block3_def example_theft_def
        balanceTransaction_def balanceInput_def balanceOutput_def GenesisTransaction_def
        SATOSHI_NAKAMOTO_def MINING_REWARD_def parentOutput_def example_mallory_def)

text \<open>
  Claim C10, amended: on a transaction with a signer, no inputs and a positive total
  of outputs, \<^verbatim>\<open>Transaction.verify\<close> throws when \<^verbatim>\<open>verifySignature\<close> throws and
  returns false otherwise, whether the signature is valid or not. Hence, when no output
  of the chain is addressed to the sender, a transaction of positive value that
  \<^verbatim>\<open>submitTransaction\<close> builds for that sender and adds to the pool has a signer, no
  inputs and a positive total of outputs, is not verified, and \<^verbatim>\<open>createBlock\<close> raises
  an error for every miner and leaves the node as it was.
\<close>

theorem verify_unfunded:
  "(wallet t = Some w \<and> inputs t = [] \<and> 0 < totalOut t \<longrightarrow>
      Transaction_verify env t
        = (case verifySignature env (address w) (Transaction_toJson env t) (signature t) of
             Inl e \<Rightarrow> Inl e
           | Inr valid \<Rightarrow> Inr False))
   \<and> ((\<forall>tx\<in>set (concat (map transactions (blocks this))).
          \<forall>out\<in>set (outputs tx). recipientAddress out \<noteq> address sender)
       \<and> 0 < val
       \<and> submitTransaction env this sender recipient val = (Inr (), this')
      \<longrightarrow> (\<exists>tx. this' = addToTransactionPool this tx \<and> wallet tx = Some sender
                 \<and> inputs tx = [] \<and> 0 < totalOut tx
                 \<and> Transaction_verify env tx \<noteq> Inr True)
          \<and> (\<forall>miner. \<exists>e. createBlock env this' miner = Some (Inl e, this')))"
proof (intro conjI impI)
  assume "wallet t = Some w \<and> inputs t = [] \<and> 0 < totalOut t"
  then show "Transaction_verify env t
        = (case verifySignature env (address w) (Transaction_toJson env t) (signature t) of
             Inl e \<Rightarrow> Inl e
           | Inr valid \<Rightarrow> Inr False)"
    by (intro verify_no_inputs) simp_all
next
  assume h: "(\<forall>tx\<in>set (concat (map transactions (blocks this))).
          \<forall>out\<in>set (outputs tx). recipientAddress out \<noteq> address sender)
       \<and> 0 < val
       \<and> submitTransaction env this sender recipient val = (Inr (), this')"
  then obtain tx where tx: "this' = addToTransactionPool this tx" "wallet tx = Some sender"
      "inputs tx = []" "0 < totalOut tx"
    using submit_no_outputs [of this sender val env recipient this'] by blast
  have nt: "Transaction_verify env tx \<noteq> Inr True"
    using verify_no_inputs [OF tx(2,3,4), of env] by (simp split: sum.splits)
  show "\<exists>tx. this' = addToTransactionPool this tx \<and> wallet tx = Some sender
                 \<and> inputs tx = [] \<and> 0 < totalOut tx
                 \<and> Transaction_verify env tx \<noteq> Inr True"
    using tx nt by blast
  have "tx \<in> set (transactionPool this')"
    by (simp add: tx(1) addToTransactionPool_def)
  with nt show "\<forall>miner. \<exists>e. createBlock env this' miner = Some (Inl e, this')"
    by (intro allI createBlock_rejects) blast
qed

text \<open>Witness for C10: the transaction that \<^verbatim>\<open>submitTransaction\<close> builds for
  \<^verbatim>\<open>alice\<close> on the fresh node, where no output is addressed to her, carries a valid
  signature and is still rejected, and \<^verbatim>\<open>carol\<close> cannot mine a block from the pool
  that holds it.\<close>

theorem verify_unfunded_witness:
  "wallet example_unfunded = Some example_alice \<and> inputs example_unfunded = []
   \<and> 0 < totalOut example_unfunded
   \<and> verifySignature example_externals (address example_alice)
        (Transaction_toJson example_externals example_unfunded) (signature example_unfunded)
       = Inr True
   \<and> Transaction_verify example_externals example_unfunded = Inr False
   \<and> submitTransaction example_externals example_fresh example_alice ''bob'' 5
       = (Inr (), example_fresh\<lparr>transactionPool := [example_unfunded],
                                poolFile := Stored [example_unfunded]\<rparr>)
   \<and> (\<exists>e. createBlock example_externals
              (example_fresh\<lparr>transactionPool := [example_unfunded],
                              poolFile := Stored [example_unfunded]\<rparr>) ''carol''
            = Some (Inl e, example_fresh\<lparr>transactionPool := [example_unfunded],
                                           poolFile := Stored [example_unfunded]\<rparr>))"
proof -
  let ?pending = "example_fresh\<lparr>transactionPool := [example_unfunded],
                                 poolFile := Stored [example_unfunded]\<rparr>"
  have h: "wallet example_unfunded = Some example_alice \<and> inputs example_unfunded = []
           \<and> 0 < totalOut example_unfunded"
    by (simp add: example_unfunded_def totalOut_def)
  have s: "verifySignature example_externals (address example_alice)
             (Transaction_toJson example_externals example_unfunded) (signature example_unfunded)
           = Inr True"
    by (simp add: verifySignature_def example_externals_def example_unfunded_def example_alice_def)
  have v: "Transaction_verify example_externals example_unfunded = Inr False"
    using verify_unfunded [where t = example_unfunded and w = example_alice
        and env = example_externals, THEN conjunct1, THEN mp, OF h]
    by (simp add: s)
  have g: "(\<forall>tx\<in>set (concat (map transactions (blocks example_fresh))).
              \<forall>out\<in>set (outputs tx). recipientAddress out \<noteq> address example_alice)
           \<and> (0::int) < 5
           \<and> submitTransaction example_externals example_fresh example_alice ''bob'' 5
               = (Inr (), ?pending)"
    by (simp add: submit_unfunded)
       (simp add: example_fresh_def GenesisTransaction_def SATOSHI_NAKAMOTO_def
          example_alice_def)
  have "\<forall>miner. \<exists>e. createBlock example_externals ?pending miner = Some (Inl e, ?pending)"
    using verify_unfunded [where env = example_externals and this = example_fresh
        and sender = example_alice and val = 5 and recipient = "''bob''"
        and this' = ?pending, THEN conjunct2, THEN mp, OF g]
    by blast
  then have "\<exists>e. createBlock example_externals ?pending ''carol'' = Some (Inl e, ?pending)"
    by blast
  with h s v show ?thesis
    by (simp add: submit_unfunded)
qed

text \<open>
  Claim C4: the first check of \<^verbatim>\<open>Transaction.verify\<close> is that every input resolves
  to an output of one recipient, who is the signer. The code compares the recipients
  with each other only, and the signature with the wallet in the transaction: a
  transaction that \<^verbatim>\<open>mallory\<close> signs and that spends an output of \<^verbatim>\<open>alice\<close> is
  verified.
\<close>

theorem verify_theft:
  "Transaction_verify example_externals example_theft = Inr True
   \<and> map_option address (wallet example_theft) = Some ''mallory''
   \<and> map (map_option recipientAddress \<circ> parentOutput) (inputs example_theft) = [Some ''alice'']"
  by (simp add: Transaction_verify_def example_theft_def sameWalletCheck_def addInput_def
      totalOut_def verifySignature_def example_externals_def example_mallory_def MINING_REWARD_def)

section \<open>Balances and new transactions\<close>







text \<open>Past \<open>2 ^ 53\<close> the steps round: on a chain that pays \<open>2 ^ 53\<close>, 1 and 1 to
  \<^verbatim>\<open>alice\<close> her balance is \<open>2 ^ 53\<close>.\<close>

lemma computeBalance_rounds:
  "computeBalance
     \<lparr>blocks = [Block BlockClass
                  [Transaction None []
                     [\<lparr>recipientAddress = ''alice'', amount = 2 ^ 53\<rparr>,
                      \<lparr>recipientAddress = ''alice'', amount = 1\<rparr>,
                      \<lparr>recipientAddress = ''alice'', amount = 1\<rparr>] None]
                  None ''alice'' None None 0 True TARGET],
      transactionPool = [], chainFile = Absent, poolFile = Absent\<rparr> ''alice''
     = Inr (2 ^ 53)"
  by (simp add: computeBalance_def balanceTransaction_def balanceOutput_def toDouble_rounds)











lemma submit_selfpay:
  "submitTransaction example_externals example_mined example_alice ''alice'' 5
     = (Inr (), example_pending)"
  by (simp add: submitTransaction_def gatherInputs_def computeBalance_def example_mined_def
      balanceTransaction_def balanceOutput_def GenesisTransaction_def example_alice_def
      SATOSHI_NAKAMOTO_def Transaction_new_def Wallet_sign_def example_externals_def
      addToTransactionPool_def example_selfpay_def example_pending_def MINING_REWARD_def Let_def)

text \<open>
  Claim C8: \<^verbatim>\<open>submitTransaction\<close> collects as inputs every output ever addressed to
  the sender. The code takes, with \<^verbatim>\<open>findIndex\<close>, only the first such output of each
  transaction. After \<^verbatim>\<open>alice\<close> has paid 5 to herself, which \<^verbatim>\<open>submitTransaction\<close>
  turns into a transaction with two outputs addressed to her, and \<^verbatim>\<open>bob\<close> has mined
  it, the inputs gathered for her hold output 0 of that transaction and never output 1,
  while \<^verbatim>\<open>computeBalance\<close> counts both.
\<close>

theorem gatherInputs_misses_second_output:
  "submitTransaction example_externals example_mined example_alice ''alice'' 5
     = (Inr (), example_pending)
   \<and> createBlock example_externals example_pending ''bob''
       = Some (Inr example_block2, example_mined2)
   \<and> map recipientAddress (outputs example_selfpay) = [''alice'', ''alice'']
   \<and> gatherInputs example_mined2 ''alice''
       = [TransactionInput (GenesisTransaction ''alice'' MINING_REWARD) 0,
          TransactionInput example_selfpay 0]"
  by (simp add: submit_selfpay createBlock_example2 gatherInputs_def example_mined2_def
      example_block2_def example_selfpay_def GenesisTransaction_def SATOSHI_NAKAMOTO_def)

end
